theory Spec2Isabelle
  imports Main "HOL-Library.AList" "HOL-Library.Monad_Syntax"
begin

section \<open>Python strings\<close>

text \<open>
  A Python \<open>str\<close> is modelled as a \<open>string\<close>; a \<open>char\<close> stands for the code point of the
  same number (0 to 255). The string methods the program calls are written out for that
  range.
\<close>

definition lower_char :: "char \<Rightarrow> char" where
  "lower_char c =
     (let n = (of_char c :: nat)
      in if (65 \<le> n \<and> n \<le> 90) \<or> (192 \<le> n \<and> n \<le> 222 \<and> n \<noteq> 215)
         then char_of (n + 32) else c)"

text \<open>\<open>str.lower()\<close>.\<close>

definition lower :: "string \<Rightarrow> string" where
  "lower s = map lower_char s"

text \<open>\<open>str.isspace()\<close> on one character: the separators and the white space controls.\<close>

definition isspace :: "char \<Rightarrow> bool" where
  "isspace c =
     (let n = (of_char c :: nat)
      in (9 \<le> n \<and> n \<le> 13) \<or> (28 \<le> n \<and> n \<le> 32) \<or> n = 133 \<or> n = 160)"

text \<open>\<open>str.strip()\<close>: white space is removed at both ends.\<close>

definition strip :: "string \<Rightarrow> string" where
  "strip s = rev (dropWhile isspace (rev (dropWhile isspace s)))"

text \<open>\<open>str(n)\<close> for a natural number \<open>n\<close>, as an f-string formats \<open>len(self.robots) + 1\<close>.\<close>

definition digit_char :: "nat \<Rightarrow> char" where
  "digit_char d = ''0123456789abcdef'' ! d"

fun str_nat :: "nat \<Rightarrow> string" where
  "str_nat n =
     (if n < 10 then [digit_char n] else str_nat (n div 10) @ [digit_char (n mod 10)])"

declare str_nat.simps [simp del]

text \<open>
  \<open>repr(s)\<close> of a string, which \<open>str(dict)\<close> applies to every key and value: the quote is
  the double quote only when the string holds a single quote and no double quote; the
  quote in use and the backslash are escaped, tab, newline and carriage return get their
  letter escapes, every other character that is not printable is written \<open>\xhh\<close>.
\<close>

definition isprintable :: "char \<Rightarrow> bool" where
  "isprintable c =
     (let n = (of_char c :: nat) in (32 \<le> n \<and> n < 127) \<or> (161 \<le> n \<and> n \<noteq> 173))"

definition repr_char :: "char \<Rightarrow> char \<Rightarrow> string" where
  "repr_char quote c =
     (if c = quote \<or> c = CHR 0x5C then [CHR 0x5C, c]
      else if c = CHR 0x09 then [CHR 0x5C, CHR ''t'']
      else if c = CHR 0x0A then [CHR 0x5C, CHR ''n'']
      else if c = CHR 0x0D then [CHR 0x5C, CHR ''r'']
      else if \<not> isprintable c
        then [CHR 0x5C, CHR ''x'', digit_char (of_char c div 16), digit_char (of_char c mod 16)]
      else [c])"

definition repr :: "string \<Rightarrow> string" where
  "repr s =
     (let quote = (if CHR 0x27 \<in> set s \<and> CHR 0x22 \<notin> set s then CHR 0x22 else CHR 0x27)
      in [quote] @ concat (map (repr_char quote) s) @ [quote])"

text \<open>\<open>sep.join(xs)\<close>.\<close>

fun join :: "string \<Rightarrow> string list \<Rightarrow> string" where
  "join sep [] = []"
| "join sep [x] = x"
| "join sep (x # y # ys) = x @ sep @ join sep (y # ys)"

section \<open>Dictionaries\<close>

text \<open>
  A \<open>dict\<close> from strings to strings keeps its keys in insertion order; storing under a key
  that is present keeps the key's place. That is \<open>AList.update\<close> on an association list.
\<close>

type_synonym dict = "(string \<times> string) list"

text \<open>\<open>d.get(key, default)\<close>.\<close>

definition get :: "dict \<Rightarrow> string \<Rightarrow> string \<Rightarrow> string" where
  "get d key dflt = (case map_of d key of None \<Rightarrow> dflt | Some v \<Rightarrow> v)"

text \<open>\<open>str(d)\<close>.\<close>

definition dict_str :: "dict \<Rightarrow> string" where
  "dict_str d = ''{'' @ join '', '' (map (\<lambda>(k, v). repr k @ '': '' @ repr v) d) @ ''}''"

text \<open>\<open>range(start, stop, step)\<close> for a positive step.\<close>

function range :: "int \<Rightarrow> int \<Rightarrow> int \<Rightarrow> int list" where
  "range i stop step = (if 0 < step \<and> i < stop then i # range (i + step) stop step else [])"
  by pat_completeness auto
termination
  by (relation "measure (\<lambda>(i, stop, step). nat (stop - i))") auto

declare range.simps [simp del]

section \<open>The canvas\<close>

text \<open>
  A call of a \<open>create_...\<close> method of the \<open>tkinter.Canvas\<close>, with its coordinates and its
  keyword options in the order the call writes them. A call that returns appends one
  item to the canvas, which is written as the call that made it.
\<close>

datatype arc_style = ARC | CHORD | PIESLICE

datatype item_option =
    Fill string
  | Outline string
  | Width int
  | Dash "int list"
  | Start int
  | Extent int
  | Style arc_style
  | Text string
  | Font string int "string list"

datatype item =
    create_rectangle int int int int "item_option list"
  | create_oval int int int int "item_option list"
  | create_line int int int int "item_option list"
  | create_arc int int int int "item_option list"
  | create_text int int "item_option list"

text \<open>
  Tk checks the \<open>fill\<close> and \<open>outline\<close> of a call against its table of colours and raises
  \<open>TclError\<close> for a string that is no colour. The table belongs to the library, not to
  the program: the names the program writes itself are in it, and \<open>colors\<close> says which
  other strings it accepts.
\<close>

definition program_colors :: "string list" where
  "program_colors =
     [''peachpuff'', ''black'', ''gray'', ''white'', ''red'', ''lightblue'', ''blue'',
      ''skyblue'', ''green'', ''lightgreen'', ''darkblue'', ''dimgray'', ''darkred'']"

definition is_color :: "(string \<Rightarrow> bool) \<Rightarrow> string \<Rightarrow> bool" where
  "is_color colors c \<longleftrightarrow> c \<in> set program_colors \<or> colors c"

fun option_colors :: "item_option \<Rightarrow> string list" where
  "option_colors (Fill c) = [c]"
| "option_colors (Outline c) = [c]"
| "option_colors opt = []"

fun item_options :: "item \<Rightarrow> item_option list" where
  "item_options (create_rectangle x1 y1 x2 y2 opts) = opts"
| "item_options (create_oval x1 y1 x2 y2 opts) = opts"
| "item_options (create_line x1 y1 x2 y2 opts) = opts"
| "item_options (create_arc x1 y1 x2 y2 opts) = opts"
| "item_options (create_text x y opts) = opts"

text \<open>The call returns: every colour it names is one.\<close>

definition accepted :: "(string \<Rightarrow> bool) \<Rightarrow> item \<Rightarrow> bool" where
  "accepted colors call =
     list_all (is_color colors) (concat (map option_colors (item_options call)))"

text \<open>
  A sequence of calls on a canvas: each call appends its item, and the first call that
  Tk refuses raises, so that the calls after it are not made (\<open>None\<close>).
\<close>

fun create_items :: "(string \<Rightarrow> bool) \<Rightarrow> item list \<Rightarrow> item list \<Rightarrow> item list option" where
  "create_items colors [] cv = Some cv"
| "create_items colors (call # calls) cv =
     (if accepted colors call then create_items colors calls (cv @ [call]) else None)"

text \<open>
  \<open>draw_robot\<close>, the branch \<open>isinstance(robot, HumanoidRobot)\<close>: the calls in the order
  they are made, for the components and the name of the robot.
\<close>

definition humanoid_calls :: "dict \<Rightarrow> string \<Rightarrow> item list" where
  "humanoid_calls components name =
     (let head_style = lower (get components ''head_style'' ''Oval'');
          eye_color = get components ''eye_color'' ''black'';
          torso_style = lower (get components ''torso_style'' ''Standard'');
          arm_style = lower (get components ''arm_style'' ''Standard'')
      in
        (if head_style = ''square''
         then [create_rectangle 170 40 230 100 [Fill ''peachpuff'', Outline ''black'', Width 2],
               create_line 230 40 230 100 [Fill ''gray'', Width 2, Dash [2, 2]]]
         else [create_oval 170 40 230 100 [Fill ''peachpuff'', Outline ''black'', Width 2],
               create_arc 175 45 225 95
                 [Start 30, Extent 120, Style ARC, Outline ''white'', Width 1]])
        @ [create_oval 185 60 195 70 [Fill ''white'', Outline ''black''],
           create_oval 188 63 192 67 [Fill eye_color, Outline eye_color],
           create_oval 205 60 215 70 [Fill ''white'', Outline ''black''],
           create_oval 208 63 212 67 [Fill eye_color, Outline eye_color]]
        @ [create_arc 180 70 220 90 [Start 200, Extent 140, Style CHORD, Fill ''red'']]
        @ (if torso_style = ''muscular''
           then [create_rectangle 175 100 215 170
                   [Fill ''lightblue'', Outline ''black'', Width 4],
                 create_line 175 135 215 135 [Fill ''blue'', Width 2],
                 create_line 195 100 195 170 [Fill ''blue'', Width 2]]
           else [create_rectangle 185 100 215 170
                   [Fill ''skyblue'', Outline ''black'', Width 2]])
        @ (if arm_style = ''hydraulic''
           then [create_line 185 110 150 140 [Fill ''black'', Width 5],
                 create_oval 145 135 155 145 [Fill ''gray'', Outline ''black''],
                 create_line 215 110 250 140 [Fill ''black'', Width 5],
                 create_oval 245 135 255 145 [Fill ''gray'', Outline ''black'']]
           else [create_line 185 110 150 140 [Fill ''black'', Width 3],
                 create_line 215 110 250 140 [Fill ''black'', Width 3],
                 create_oval 145 135 155 145 [Fill ''black''],
                 create_oval 245 135 255 145 [Fill ''black'']])
        @ (if lower (get components ''legs'' ''Standard'') = ''wide''
           then [create_rectangle 180 170 200 220 [Fill ''black''],
                 create_rectangle 200 170 220 220 [Fill ''black''],
                 create_oval 190 215 200 225 [Fill ''gray'', Outline ''black''],
                 create_oval 210 215 220 225 [Fill ''gray'', Outline ''black'']]
           else [create_line 190 170 190 220 [Fill ''black'', Width 3],
                 create_line 210 170 210 220 [Fill ''black'', Width 3],
                 create_oval 185 215 195 225 [Fill ''black''],
                 create_oval 205 215 215 225 [Fill ''black'']])
        @ (if lower (get components ''antenna'' ''None'') \<noteq> ''none''
           then [create_line 200 40 200 15 [Fill ''green'', Width 2],
                 create_oval 195 10 205 20 [Fill ''green'', Outline ''black''],
                 create_oval 197 12 203 18 [Fill ''lightgreen'', Outline ''green'']]
           else [])
        @ [create_text 200 20
             [Text name, Font ''Helvetica'' 16 [''bold''], Fill ''darkblue'']])"

text \<open>\<open>draw_robot\<close>, the branch \<open>isinstance(robot, HeavyRobot)\<close>.\<close>

definition heavy_calls :: "dict \<Rightarrow> string \<Rightarrow> item list" where
  "heavy_calls components name =
     (let head_style = lower (get components ''head_style'' ''Rectangle'');
          torso_style = lower (get components ''torso_style'' ''Standard'');
          arm_style = lower (get components ''arm_style'' ''Standard'')
      in
        (if head_style = ''dome''
         then [create_arc 150 40 250 90
                 [Start 0, Extent 180, Fill ''dimgray'', Outline ''black'', Width 3],
               create_line 150 65 250 65 [Fill ''black'', Width 2]]
         else [create_rectangle 150 40 250 90
                 [Fill ''dimgray'', Outline ''black'', Width 3]])
        @ map (\<lambda>x. create_oval x 45 (x + 10) 55 [Fill ''black'']) (range 160 240 20)
        @ (if torso_style = ''armored''
           then [create_rectangle 140 90 260 180 [Fill ''gray'', Outline ''black'', Width 4],
                 create_line 140 130 260 130 [Fill ''black'', Width 2],
                 create_line 200 90 200 180 [Fill ''black'', Width 2]]
           else [create_rectangle 140 90 260 180
                   [Fill ''gray'', Outline ''black'', Width 3]])
        @ (if arm_style = ''robotic''
           then [create_rectangle 110 90 140 150
                   [Fill ''dimgray'', Outline ''black'', Width 3],
                 create_rectangle 260 90 290 150
                   [Fill ''dimgray'', Outline ''black'', Width 3],
                 create_line 125 90 125 70 [Fill ''black'', Width 2],
                 create_line 275 90 275 70 [Fill ''black'', Width 2],
                 create_oval 120 70 130 80 [Fill ''black'', Outline ''gray''],
                 create_oval 270 70 280 80 [Fill ''black'', Outline ''gray'']]
           else [create_rectangle 110 90 140 150
                   [Fill ''dimgray'', Outline ''black'', Width 3],
                 create_rectangle 260 90 290 150
                   [Fill ''dimgray'', Outline ''black'', Width 3]])
        @ (if lower (get components ''legs'' ''Standard'') = ''wide''
           then [create_rectangle 160 180 190 260 [Fill ''black'', Outline ''black''],
                 create_rectangle 210 180 240 260 [Fill ''black'', Outline ''black''],
                 create_oval 170 255 180 265 [Fill ''gray'', Outline ''black''],
                 create_oval 220 255 230 265 [Fill ''gray'', Outline ''black'']]
           else [create_rectangle 170 180 190 260 [Fill ''black'', Outline ''black''],
                 create_rectangle 210 180 230 260 [Fill ''black'', Outline ''black'']])
        @ (if lower (get components ''antenna'' ''None'') \<noteq> ''none''
           then [create_line 200 40 200 15 [Fill ''green'', Width 2],
                 create_oval 195 10 205 20 [Fill ''green'', Outline ''black''],
                 create_oval 197 12 203 18 [Fill ''lightgreen'', Outline ''green'']]
           else [])
        @ [create_text 200 20
             [Text name, Font ''Helvetica'' 16 [''bold''], Fill ''darkred'']])"

text \<open>\<open>draw_robot\<close>, the last branch: the robot is of neither class.\<close>

definition unknown_calls :: "item list" where
  "unknown_calls = [create_text 200 200 [Text ''Unknown Robot Type'', Font ''Helvetica'' 16 []]]"

section \<open>Objects and the state of the process\<close>

text \<open>
  Objects live in a store and are named by their address, so that two names of one
  object see each other's writes. An address is an index into the store; a new object is
  appended. A robot holds the address of its \<open>components\<close> dictionary.
\<close>

type_synonym addr = nat

text \<open>
  A callable bound as the logger's \<open>gui_callback\<close>: the application's \<open>update_log\<close>
  method, or any other callable, known by a number.
\<close>

datatype callback = App_update_log | Other_callback nat

text \<open>
  The class of a robot: the two classes of the program, and any other subclass of
  \<open>Robot\<close>.
\<close>

datatype robot_class = HumanoidRobot | HeavyRobot | OtherRobot

datatype pyobj =
    Logger "callback option"
  | Robot robot_class string addr
  | Dict dict

text \<open>The window \<open>open_edit_dialog\<close> builds: the robot it edits and its variables.\<close>

record edit_window =
  edited :: addr
  name_var :: string
  antenna_var :: string
  legs_var :: string
  head_var :: string
  torso_var :: string
  arm_var :: string
  eye_var :: "string option"

text \<open>
  The state: the store, the class attribute \<open>SingletonLogger._instance\<close>, what was
  printed, the calls made to other callbacks, and the fields and widgets of the one
  \<open>RobotFactoryApp\<close>.
\<close>

record state =
  heap :: "pyobj list"
  SingletonLogger_instance :: "addr option"
  stdout :: "string list"
  callback_calls :: "(nat \<times> string) list"
  name_entry :: string
  robot_listbox :: "string list"
  log_text :: string
  canvas :: "item list"
  logger :: addr
  robots :: "addr list"
  last_robot :: "addr option"
  edit_windows :: "edit_window list"

definition heap_get :: "state \<Rightarrow> addr \<Rightarrow> pyobj option" where
  "heap_get s a = (if a < length (heap s) then Some (heap s ! a) else None)"

definition alloc :: "pyobj \<Rightarrow> state \<Rightarrow> addr \<times> state" where
  "alloc obj s = (length (heap s), s\<lparr>heap := heap s @ [obj]\<rparr>)"

text \<open>
  In the operations below \<open>None\<close> is an exception that leaves the operation: the one
  Python raises on an object of the wrong shape (a name that is no robot, a
  \<open>components\<close> that is no dictionary), or the \<open>TclError\<close> of a canvas call.
\<close>

section \<open>Singleton: the logger\<close>

text \<open>\<open>SingletonLogger.__new__(cls, gui_callback=None)\<close>.\<close>

definition SingletonLogger_new :: "callback option \<Rightarrow> state \<Rightarrow> addr \<times> state" where
  "SingletonLogger_new gui_callback s =
     (case SingletonLogger_instance s of
        None \<Rightarrow>
          (let (a, s') = alloc (Logger gui_callback) s
           in (a, s'\<lparr>SingletonLogger_instance := Some a\<rparr>))
      | Some a \<Rightarrow> (a, s))"

text \<open>\<open>RobotFactoryApp.update_log\<close>: the message is inserted at the end of the log widget.\<close>

definition update_log :: "string \<Rightarrow> state \<Rightarrow> state" where
  "update_log message s = s\<lparr>log_text := log_text s @ message\<rparr>"

definition call_callback :: "callback \<Rightarrow> string \<Rightarrow> state \<Rightarrow> state" where
  "call_callback cb message s =
     (case cb of
        App_update_log \<Rightarrow> update_log message s
      | Other_callback n \<Rightarrow> s\<lparr>callback_calls := callback_calls s @ [(n, message)]\<rparr>)"

text \<open>\<open>SingletonLogger.log(self, message)\<close>.\<close>

definition log :: "addr \<Rightarrow> string \<Rightarrow> state \<Rightarrow> state option" where
  "log self message s =
     (case heap_get s self of
        Some (Logger gui_callback) \<Rightarrow>
          (let log_message = ''[LOG]: '' @ message;
               s1 = s\<lparr>stdout := stdout s @ [log_message]\<rparr>
           in case gui_callback of
                None \<Rightarrow> Some s1
              | Some cb \<Rightarrow> Some (call_callback cb (log_message @ [CHR 0x0A]) s1))
      | _ \<Rightarrow> None)"

text \<open>The expression \<open>SingletonLogger().log(message)\<close>.\<close>

definition SingletonLogger_log :: "string \<Rightarrow> state \<Rightarrow> state option" where
  "SingletonLogger_log message s =
     (let (lg, s') = SingletonLogger_new None s in log lg message s')"

text \<open>A run of constructor calls, one for each callback argument: the instances returned.\<close>

fun SingletonLogger_news :: "callback option list \<Rightarrow> state \<Rightarrow> addr list \<times> state" where
  "SingletonLogger_news [] s = ([], s)"
| "SingletonLogger_news (cb # cbs) s =
     (let (a, s1) = SingletonLogger_new cb s;
          (as, s2) = SingletonLogger_news cbs s1
      in (a # as, s2))"

section \<open>Prototype: robots\<close>

text \<open>\<open>Robot.__init__(self, name)\<close>, for an instance of class \<open>c\<close>.\<close>

definition Robot_init :: "robot_class \<Rightarrow> string \<Rightarrow> state \<Rightarrow> addr \<times> state" where
  "Robot_init c name s =
     (let (d, s1) = alloc (Dict []) s in alloc (Robot c name d) s1)"

text \<open>What a robot's name leads to: its class, its name and its components.\<close>

definition robot_at :: "state \<Rightarrow> addr \<Rightarrow> (robot_class \<times> string \<times> dict) option" where
  "robot_at s r =
     (case heap_get s r of
        Some (Robot c name d) \<Rightarrow>
          (case heap_get s d of Some (Dict components) \<Rightarrow> Some (c, name, components)
           | _ \<Rightarrow> None)
      | _ \<Rightarrow> None)"

text \<open>\<open>Robot.__str__\<close>.\<close>

definition robot_str :: "state \<Rightarrow> addr \<Rightarrow> string option" where
  "robot_str s r =
     (case robot_at s r of
        Some (c, name, components) \<Rightarrow> Some (name @ '': '' @ dict_str components)
      | None \<Rightarrow> None)"

text \<open>The assignment \<open>robot.components[key] = v\<close>.\<close>

definition components_setitem :: "addr \<Rightarrow> string \<Rightarrow> string \<Rightarrow> state \<Rightarrow> state option" where
  "components_setitem r key v s =
     (case heap_get s r of
        Some (Robot c name d) \<Rightarrow>
          (case heap_get s d of
             Some (Dict components) \<Rightarrow>
               Some (s\<lparr>heap := (heap s)[d := Dict (AList.update key v components)]\<rparr>)
           | _ \<Rightarrow> None)
      | _ \<Rightarrow> None)"

text \<open>The assignment \<open>robot.name = v\<close>.\<close>

definition name_set :: "addr \<Rightarrow> string \<Rightarrow> state \<Rightarrow> state option" where
  "name_set r v s =
     (case heap_get s r of
        Some (Robot c name d) \<Rightarrow> Some (s\<lparr>heap := (heap s)[r := Robot c v d]\<rparr>)
      | _ \<Rightarrow> None)"

text \<open>
  \<open>Robot.clone\<close>, that is \<open>copy.deepcopy(self)\<close>: a new robot of the same class with the
  same name, and a new dictionary with the same items (strings are not copied).
\<close>

definition clone :: "addr \<Rightarrow> state \<Rightarrow> (addr \<times> state) option" where
  "clone self s =
     (case heap_get s self of
        Some (Robot c name d) \<Rightarrow>
          (case heap_get s d of
             Some (Dict components) \<Rightarrow>
               (let (d', s1) = alloc (Dict components) s
                in Some (alloc (Robot c name d') s1))
           | _ \<Rightarrow> None)
      | _ \<Rightarrow> None)"

section \<open>Abstract factory: the parts\<close>

datatype part_factory = HumanoidPartFactory | HeavyPartFactory

fun create_head :: "part_factory \<Rightarrow> string" where
  "create_head HumanoidPartFactory = ''Smart Face''"
| "create_head HeavyPartFactory = ''Armored Head''"

fun create_torso :: "part_factory \<Rightarrow> string" where
  "create_torso HumanoidPartFactory = ''Sleek Body''"
| "create_torso HeavyPartFactory = ''Reinforced Frame''"

fun create_limbs :: "part_factory \<Rightarrow> string" where
  "create_limbs HumanoidPartFactory = ''Agile Limbs''"
| "create_limbs HeavyPartFactory = ''Robust Limbs''"

section \<open>Builder and director\<close>

text \<open>A builder of either class, with its fields \<open>robot\<close> and \<open>part_factory\<close>.\<close>

datatype builder =
    HumanoidRobotBuilder addr part_factory
  | HeavyRobotBuilder addr part_factory

text \<open>\<open>HumanoidRobotBuilder.__init__\<close> and \<open>HeavyRobotBuilder.__init__\<close>.\<close>

definition HumanoidRobotBuilder_init :: "string \<Rightarrow> state \<Rightarrow> (builder \<times> state) option" where
  "HumanoidRobotBuilder_init name s =
     (let (r, s1) = Robot_init HumanoidRobot name s
      in do {
        s2 \<leftarrow> SingletonLogger_log ''HumanoidRobotBuilder initialized'' s1;
        Some (HumanoidRobotBuilder r HumanoidPartFactory, s2)
      })"

definition HeavyRobotBuilder_init :: "string \<Rightarrow> state \<Rightarrow> (builder \<times> state) option" where
  "HeavyRobotBuilder_init name s =
     (let (r, s1) = Robot_init HeavyRobot name s
      in do {
        s2 \<leftarrow> SingletonLogger_log ''HeavyRobotBuilder initialized'' s1;
        Some (HeavyRobotBuilder r HeavyPartFactory, s2)
      })"

fun build_head :: "builder \<Rightarrow> state \<Rightarrow> state option" where
  "build_head (HumanoidRobotBuilder robot part_factory) s =
     do {
       s1 \<leftarrow> components_setitem robot ''head'' (create_head part_factory) s;
       SingletonLogger_log ''Built humanoid head'' s1
     }"
| "build_head (HeavyRobotBuilder robot part_factory) s =
     do {
       s1 \<leftarrow> components_setitem robot ''head'' (create_head part_factory) s;
       SingletonLogger_log ''Built heavy robot head'' s1
     }"

fun build_torso :: "builder \<Rightarrow> state \<Rightarrow> state option" where
  "build_torso (HumanoidRobotBuilder robot part_factory) s =
     do {
       s1 \<leftarrow> components_setitem robot ''torso'' (create_torso part_factory) s;
       SingletonLogger_log ''Built humanoid torso'' s1
     }"
| "build_torso (HeavyRobotBuilder robot part_factory) s =
     do {
       s1 \<leftarrow> components_setitem robot ''torso'' (create_torso part_factory) s;
       SingletonLogger_log ''Built heavy robot torso'' s1
     }"

fun build_limbs :: "builder \<Rightarrow> state \<Rightarrow> state option" where
  "build_limbs (HumanoidRobotBuilder robot part_factory) s =
     do {
       s1 \<leftarrow> components_setitem robot ''limbs'' (create_limbs part_factory) s;
       SingletonLogger_log ''Built humanoid limbs'' s1
     }"
| "build_limbs (HeavyRobotBuilder robot part_factory) s =
     do {
       s1 \<leftarrow> components_setitem robot ''limbs'' (create_limbs part_factory) s;
       SingletonLogger_log ''Built heavy robot limbs'' s1
     }"

fun get_robot :: "builder \<Rightarrow> addr" where
  "get_robot (HumanoidRobotBuilder robot part_factory) = robot"
| "get_robot (HeavyRobotBuilder robot part_factory) = robot"

text \<open>\<open>RobotDirector\<close>: a director holds its builder.\<close>

datatype director = RobotDirector builder

definition RobotDirector_init :: "builder \<Rightarrow> state \<Rightarrow> (director \<times> state) option" where
  "RobotDirector_init b s =
     do {
       s1 \<leftarrow> SingletonLogger_log ''RobotDirector initialized'' s;
       Some (RobotDirector b, s1)
     }"

fun construct_robot :: "director \<Rightarrow> state \<Rightarrow> (addr \<times> state) option" where
  "construct_robot (RobotDirector b) s =
     do {
       s1 \<leftarrow> build_head b s;
       s2 \<leftarrow> build_torso b s1;
       s3 \<leftarrow> build_limbs b s2;
       Some (get_robot b, s3)
     }"

section \<open>Factory method\<close>

datatype robot_factory = HumanoidRobotFactory | HeavyRobotFactory

fun create_robot :: "robot_factory \<Rightarrow> string \<Rightarrow> state \<Rightarrow> (addr \<times> state) option" where
  "create_robot HumanoidRobotFactory name s =
     do {
       s1 \<leftarrow> SingletonLogger_log (''Creating Humanoid Robot: '' @ name) s;
       (b, s2) \<leftarrow> HumanoidRobotBuilder_init name s1;
       (director, s3) \<leftarrow> RobotDirector_init b s2;
       construct_robot director s3
     }"
| "create_robot HeavyRobotFactory name s =
     do {
       s1 \<leftarrow> SingletonLogger_log (''Creating Heavy Robot: '' @ name) s;
       (b, s2) \<leftarrow> HeavyRobotBuilder_init name s1;
       (director, s3) \<leftarrow> RobotDirector_init b s2;
       construct_robot director s3
     }"

section \<open>The application\<close>

text \<open>The state of a process that has created no object yet.\<close>

definition process_start :: state where
  "process_start =
     \<lparr>heap = [], SingletonLogger_instance = None, stdout = [], callback_calls = [],
      name_entry = [], robot_listbox = [], log_text = [], canvas = [], logger = 0,
      robots = [], last_robot = None, edit_windows = []\<rparr>"

text \<open>
  \<open>RobotFactoryApp.__init__\<close>: the widgets are created empty, the logger is asked for
  with \<open>update_log\<close> as its callback, and the list of robots starts empty.
\<close>

definition RobotFactoryApp_init :: "state \<Rightarrow> state option" where
  "RobotFactoryApp_init s =
     (let s0 = s\<lparr>name_entry := [], robot_listbox := [], log_text := [], canvas := [],
                 edit_windows := []\<rparr>;
          (lg, s1) = SingletonLogger_new (Some App_update_log) s0;
          s2 = s1\<lparr>logger := lg\<rparr>
      in do {
        s3 \<leftarrow> log lg ''Application started'' s2;
        Some (s3\<lparr>robots := [], last_robot := None\<rparr>)
      })"

text \<open>\<open>update_robot_list\<close>: the list box is emptied, then gets \<open>str(robot)\<close> of each robot.\<close>

fun robot_strs :: "state \<Rightarrow> addr list \<Rightarrow> string list option" where
  "robot_strs s [] = Some []"
| "robot_strs s (r # rs) =
     do {
       x \<leftarrow> robot_str s r;
       xs \<leftarrow> robot_strs s rs;
       Some (x # xs)
     }"

definition update_robot_list :: "state \<Rightarrow> state option" where
  "update_robot_list s =
     do {
       xs \<leftarrow> robot_strs s (robots s);
       Some (s\<lparr>robot_listbox := xs\<rparr>)
     }"

text \<open>\<open>isinstance(obj, c)\<close> for a robot class \<open>c\<close>.\<close>

definition isinstance :: "pyobj \<Rightarrow> robot_class \<Rightarrow> bool" where
  "isinstance obj c = (case obj of Robot c' name d \<Rightarrow> c' = c | _ \<Rightarrow> False)"

text \<open>
  \<open>draw_robot\<close>: the canvas is emptied, then the calls of the branch the robot's class
  selects are made. A \<open>TclError\<close> of a call leaves \<open>draw_robot\<close>.
\<close>

definition draw_robot :: "(string \<Rightarrow> bool) \<Rightarrow> addr \<Rightarrow> state \<Rightarrow> state option" where
  "draw_robot colors robot s =
     (let s0 = s\<lparr>canvas := []\<rparr>
      in case heap_get s0 robot of
           None \<Rightarrow> None
         | Some obj \<Rightarrow>
             if isinstance obj HumanoidRobot then
               (case robot_at s0 robot of
                  Some (c, name, components) \<Rightarrow>
                    map_option (\<lambda>cv. s0\<lparr>canvas := cv\<rparr>)
                      (create_items colors (humanoid_calls components name) [])
                | None \<Rightarrow> None)
             else if isinstance obj HeavyRobot then
               (case robot_at s0 robot of
                  Some (c, name, components) \<Rightarrow>
                    map_option (\<lambda>cv. s0\<lparr>canvas := cv\<rparr>)
                      (create_items colors (heavy_calls components name) [])
                | None \<Rightarrow> None)
             else map_option (\<lambda>cv. s0\<lparr>canvas := cv\<rparr>)
                    (create_items colors unknown_calls []))"

text \<open>\<open>create_humanoid_robot\<close> and \<open>create_heavy_robot\<close>.\<close>

definition create_humanoid_robot :: "(string \<Rightarrow> bool) \<Rightarrow> state \<Rightarrow> state option" where
  "create_humanoid_robot colors s =
     (let stripped = strip (name_entry s);
          name = (if stripped \<noteq> [] then stripped
                  else ''Humanoid-'' @ str_nat (length (robots s) + 1))
      in do {
        (robot, s1) \<leftarrow> create_robot HumanoidRobotFactory name s;
        let s2 = s1\<lparr>last_robot := Some robot\<rparr>;
        let s3 = s2\<lparr>robots := robots s2 @ [robot]\<rparr>;
        str \<leftarrow> robot_str s3 robot;
        s4 \<leftarrow> log (logger s3) (''Created humanoid robot: '' @ str) s3;
        s5 \<leftarrow> update_robot_list s4;
        draw_robot colors robot s5
      })"

definition create_heavy_robot :: "(string \<Rightarrow> bool) \<Rightarrow> state \<Rightarrow> state option" where
  "create_heavy_robot colors s =
     (let stripped = strip (name_entry s);
          name = (if stripped \<noteq> [] then stripped
                  else ''Heavy-'' @ str_nat (length (robots s) + 1))
      in do {
        (robot, s1) \<leftarrow> create_robot HeavyRobotFactory name s;
        let s2 = s1\<lparr>last_robot := Some robot\<rparr>;
        let s3 = s2\<lparr>robots := robots s2 @ [robot]\<rparr>;
        str \<leftarrow> robot_str s3 robot;
        s4 \<leftarrow> log (logger s3) (''Created heavy robot: '' @ str) s3;
        s5 \<leftarrow> update_robot_list s4;
        draw_robot colors robot s5
      })"

text \<open>
  \<open>open_edit_dialog\<close>: a window is opened on the robot, its variables set from the
  robot's name and components.
\<close>

definition open_edit_dialog :: "addr \<Rightarrow> state \<Rightarrow> state option" where
  "open_edit_dialog robot s =
     (case robot_at s robot of
        Some (c, name, components) \<Rightarrow>
          Some (s\<lparr>edit_windows := edit_windows s @
            [\<lparr>edited = robot,
              name_var = name,
              antenna_var = get components ''antenna'' ''None'',
              legs_var = get components ''legs'' ''Standard'',
              head_var = get components ''head_style''
                (if c = HumanoidRobot then ''Oval'' else ''Rectangle''),
              torso_var = get components ''torso_style'' ''Standard'',
              arm_var = get components ''arm_style'' ''Standard'',
              eye_var = (if c = HumanoidRobot
                         then Some (get components ''eye_color'' ''Black'') else None)\<rparr>]\<rparr>)
      | None \<Rightarrow> None)"

text \<open>\<open>clone_robot\<close>.\<close>

definition clone_robot :: "(string \<Rightarrow> bool) \<Rightarrow> state \<Rightarrow> state option" where
  "clone_robot colors s =
     (case last_robot s of
        Some source \<Rightarrow>
          do {
            (new_robot, s1) \<leftarrow> clone source s;
            (c, name, components) \<leftarrow> robot_at s1 new_robot;
            s2 \<leftarrow> name_set new_robot (name @ ''_clone'') s1;
            let s3 = s2\<lparr>robots := robots s2 @ [new_robot]\<rparr>;
            let s4 = s3\<lparr>last_robot := Some new_robot\<rparr>;
            str \<leftarrow> robot_str s4 new_robot;
            s5 \<leftarrow> log (logger s4) (''Cloned robot: '' @ str) s4;
            s6 \<leftarrow> update_robot_list s5;
            s7 \<leftarrow> draw_robot colors new_robot s6;
            open_edit_dialog new_robot s7
          }
      | None \<Rightarrow> log (logger s) ''No robot to clone.'' s)"

text \<open>
  The options the edit dialog offers for each key, by the class of the robot: the
  documented values of the key.
\<close>

definition options :: "robot_class \<Rightarrow> string \<Rightarrow> string list" where
  "options c key =
     (if key = ''antenna'' then [''None'', ''Small'', ''Large'']
      else if key = ''legs'' then [''Standard'', ''Wide'']
      else if key = ''head_style''
        then (if c = HumanoidRobot then [''Oval'', ''Square''] else [''Rectangle'', ''Dome''])
      else if key = ''torso_style''
        then (if c = HumanoidRobot then [''Standard'', ''Muscular'']
              else [''Standard'', ''Armored''])
      else if key = ''arm_style''
        then (if c = HumanoidRobot then [''Standard'', ''Hydraulic'']
              else [''Standard'', ''Robotic''])
      else if key = ''eye_color'' \<and> c = HumanoidRobot
        then [''Black'', ''Blue'', ''Green'', ''Brown'', ''Hazel'']
      else [])"

text \<open>
  The value \<open>draw_robot\<close> compares the lower-cased value of a style key with, by the
  class of the robot: any other value takes the \<open>else\<close> branch of that key.
\<close>

definition style_keyword :: "robot_class \<Rightarrow> string \<Rightarrow> string" where
  "style_keyword c key =
     (if key = ''legs'' then ''wide''
      else if c = HumanoidRobot
        then (if key = ''head_style'' then ''square''
              else if key = ''torso_style'' then ''muscular'' else ''hydraulic'')
      else (if key = ''head_style'' then ''dome''
            else if key = ''torso_style'' then ''armored'' else ''robotic''))"

text \<open>
  The colours a robot's branch of \<open>draw_robot\<close> takes from the components are colours:
  the eye colour of a humanoid robot.
\<close>

definition drawable :: "(string \<Rightarrow> bool) \<Rightarrow> robot_class \<Rightarrow> dict \<Rightarrow> bool" where
  "drawable colors c components =
     (case c of
        HumanoidRobot \<Rightarrow> is_color colors (get components ''eye_color'' ''black'')
      | HeavyRobot \<Rightarrow> True
      | OtherRobot \<Rightarrow> True)"

section \<open>Well-formed states\<close>

text \<open>
  The class attribute \<open>_instance\<close> is \<open>None\<close> or names a logger, as in every state the
  program reaches.
\<close>

definition instance_ok :: "state \<Rightarrow> bool" where
  "instance_ok s =
     (case SingletonLogger_instance s of
        None \<Rightarrow> True
      | Some a \<Rightarrow> (case heap_get s a of Some (Logger cb) \<Rightarrow> True | _ \<Rightarrow> False))"

text \<open>Two states with the same application fields, canvas and widgets.\<close>

definition same_app :: "state \<Rightarrow> state \<Rightarrow> bool" where
  "same_app s s' \<longleftrightarrow>
     name_entry s' = name_entry s \<and> robot_listbox s' = robot_listbox s \<and>
     canvas s' = canvas s \<and> logger s' = logger s \<and> robots s' = robots s \<and>
     last_robot s' = last_robot s \<and> edit_windows s' = edit_windows s"

text \<open>
  A state of the running application: \<open>self.logger\<close> names a logger and every entry of
  \<open>self.robots\<close> names a robot whose components are a dictionary.
\<close>

definition app_ok :: "state \<Rightarrow> bool" where
  "app_ok s \<longleftrightarrow>
     instance_ok s \<and>
     (case heap_get s (logger s) of Some (Logger cb) \<Rightarrow> True | _ \<Rightarrow> False) \<and>
     list_all (\<lambda>r. robot_at s r \<noteq> None) (robots s)"

text \<open>
  A robot under construction since state \<open>s0\<close>: the robot \<open>r\<close> and its dictionary \<open>d\<close>
  hold the given class, name and components, \<open>d\<close> was created after \<open>s0\<close>, and the
  objects of \<open>s0\<close> and the application fields are as they were.
\<close>

definition building ::
  "state \<Rightarrow> addr \<Rightarrow> addr \<Rightarrow> robot_class \<Rightarrow> string \<Rightarrow> dict \<Rightarrow> state \<Rightarrow> bool" where
  "building s0 r d c name m s \<longleftrightarrow>
     instance_ok s \<and> same_app s0 s \<and> length (heap s0) \<le> length (heap s) \<and>
     (\<forall>a < length (heap s0). heap_get s a = heap_get s0 a) \<and>
     length (heap s0) \<le> d \<and>
     heap_get s r = Some (Robot c name d) \<and> heap_get s d = Some (Dict m)"

text \<open>
  A run of assignments \<open>robot.components[key] = v\<close>, each to the robot it names, and
  what the writes to robot \<open>r\<close> among them make of a dictionary.
\<close>

fun setitems :: "(addr \<times> string \<times> string) list \<Rightarrow> state \<Rightarrow> state option" where
  "setitems [] s = Some s"
| "setitems ((r, key, v) # ws) s =
     do {
       s1 \<leftarrow> components_setitem r key v s;
       setitems ws s1
     }"

fun writes :: "addr \<Rightarrow> (addr \<times> string \<times> string) list \<Rightarrow> dict \<Rightarrow> dict" where
  "writes r [] m = m"
| "writes r ((r', key, v) # ws) m =
     writes r ws (if r' = r then AList.update key v m else m)"

section \<open>Reading the store\<close>

lemma heap_get_heap: "heap s' = heap s \<Longrightarrow> heap_get s' = heap_get s"
  by (rule ext) (simp add: heap_get_def)

lemma robot_at_heap:
  assumes "heap s' = heap s"
  shows "robot_at s' = robot_at s"
  unfolding robot_at_def heap_get_heap [OF assms] ..

lemma heap_get_canvas [simp]: "heap_get (s\<lparr>canvas := x\<rparr>) a = heap_get s a"
  by (simp add: heap_get_heap [of "s\<lparr>canvas := x\<rparr>" s])

lemma robot_at_canvas [simp]: "robot_at (s\<lparr>canvas := x\<rparr>) r = robot_at s r"
  by (simp add: robot_at_heap [of "s\<lparr>canvas := x\<rparr>" s])

lemma robot_at_heap_get:
  "robot_at s r = Some (c, name, components) \<Longrightarrow>
     \<exists>d. heap_get s r = Some (Robot c name d) \<and> heap_get s d = Some (Dict components)"
  by (auto simp: robot_at_def split: option.splits pyobj.splits)

lemma heap_get_robot_at:
  "heap_get s r = Some (Robot c name d) \<Longrightarrow> heap_get s d = Some (Dict components) \<Longrightarrow>
     robot_at s r = Some (c, name, components)"
  by (simp add: robot_at_def)

section \<open>Rendering\<close>

text \<open>A sequence of calls returns when every call is accepted, and then appends them all.\<close>

lemma create_items_all:
  "create_items colors calls cv =
     (if list_all (accepted colors) calls then Some (cv @ calls) else None)"
  by (induction calls arbitrary: cv) simp_all

lemma list_all_if:
  "list_all P (if b then xs else ys) = (if b then list_all P xs else list_all P ys)"
  by simp

lemma accepted_program_colors:
  "c \<in> set program_colors \<Longrightarrow> is_color colors c"
  by (simp add: is_color_def)

text \<open>The calls of the humanoid branch are accepted when the eye colour is a colour.\<close>

lemma humanoid_calls_accepted:
  "list_all (accepted colors) (humanoid_calls components name) =
     is_color colors (get components ''eye_color'' ''black'')"
  by (simp add: humanoid_calls_def Let_def list_all_if accepted_def is_color_def
      program_colors_def)

lemma heavy_calls_accepted: "list_all (accepted colors) (heavy_calls components name)"
  by (simp add: heavy_calls_def Let_def list_all_if accepted_def is_color_def
      program_colors_def list.pred_map comp_def list.pred_True)

lemma unknown_calls_accepted: "list_all (accepted colors) unknown_calls"
  by (simp add: unknown_calls_def accepted_def)

text \<open>
  What \<open>draw_robot\<close> does for a robot of class \<open>c\<close>: when the robot is drawable, the
  canvas holds the items of the class's branch and nothing else of the state changes;
  when it is not, a call raises.
\<close>

lemma draw_robot_robot:
  assumes "robot_at s r = Some (c, name, components)"
  shows "draw_robot colors r s =
    (if drawable colors c components
     then Some (s\<lparr>canvas := (case c of HumanoidRobot \<Rightarrow> humanoid_calls components name
                               | HeavyRobot \<Rightarrow> heavy_calls components name
                               | OtherRobot \<Rightarrow> unknown_calls)\<rparr>)
     else None)"
proof -
  from robot_at_heap_get [OF assms] obtain d where "heap_get s r = Some (Robot c name d)"
    by blast
  with assms show ?thesis
    by (cases c)
      (simp_all add: draw_robot_def isinstance_def drawable_def create_items_all
        humanoid_calls_accepted heavy_calls_accepted unknown_calls_accepted)
qed

text \<open>
  Claim C1. Rendering is deterministic and reads no hidden state: whenever two robots,
  in any two states of the process, have the same class, the same name and the same
  components, the two calls of \<open>draw_robot\<close> have the same outcome, whatever the
  canvas, the store and the rest of the state held before: both raise, or both return
  and leave the same sequence of items on the canvas. They return exactly when the
  robot is drawable, and drawing the same robot a second time changes nothing.
\<close>

theorem draw_robot_deterministic:
  assumes "robot_at s1 r1 = Some (c, name, components)"
    and "robot_at s2 r2 = Some (c, name, components)"
  shows "map_option canvas (draw_robot colors r1 s1) =
       map_option canvas (draw_robot colors r2 s2) \<and>
     (draw_robot colors r1 s1 \<noteq> None) = drawable colors c components \<and>
     (draw_robot colors r2 s2 \<noteq> None) = drawable colors c components \<and>
     (case draw_robot colors r1 s1 of
        None \<Rightarrow> True
      | Some t \<Rightarrow> draw_robot colors r1 t = Some t)"
  using assms by (simp add: draw_robot_robot)

theorem draw_robot_deterministic_witness:
  "robot_at (process_start\<lparr>heap := [Dict [(''eye_color'', ''Blue'')],
       Robot HumanoidRobot ''Ada'' 0]\<rparr>) 1 =
     Some (HumanoidRobot, ''Ada'', [(''eye_color'', ''Blue'')]) \<and>
   robot_at (process_start\<lparr>heap := [Logger None, Robot HumanoidRobot ''Ada'' 2,
       Dict [(''eye_color'', ''Blue'')]], canvas := [create_text 0 0 []]\<rparr>) 1 =
     Some (HumanoidRobot, ''Ada'', [(''eye_color'', ''Blue'')]) \<and>
   map_option canvas
     (draw_robot (\<lambda>c. c = ''Blue'') 1 (process_start\<lparr>heap := [Dict [(''eye_color'', ''Blue'')],
       Robot HumanoidRobot ''Ada'' 0]\<rparr>)) =
   map_option canvas
     (draw_robot (\<lambda>c. c = ''Blue'') 1 (process_start\<lparr>heap := [Logger None,
       Robot HumanoidRobot ''Ada'' 2, Dict [(''eye_color'', ''Blue'')]],
       canvas := [create_text 0 0 []]\<rparr>)) \<and>
   draw_robot (\<lambda>c. c = ''Blue'') 1 (process_start\<lparr>heap := [Dict [(''eye_color'', ''Blue'')],
       Robot HumanoidRobot ''Ada'' 0]\<rparr>) \<noteq> None"
proof -
  have a: "robot_at (process_start\<lparr>heap := [Dict [(''eye_color'', ''Blue'')],
       Robot HumanoidRobot ''Ada'' 0]\<rparr>) 1 =
     Some (HumanoidRobot, ''Ada'', [(''eye_color'', ''Blue'')])"
    by (simp add: robot_at_def heap_get_def)
  have b: "robot_at (process_start\<lparr>heap := [Logger None, Robot HumanoidRobot ''Ada'' 2,
       Dict [(''eye_color'', ''Blue'')]], canvas := [create_text 0 0 []]\<rparr>) 1 =
     Some (HumanoidRobot, ''Ada'', [(''eye_color'', ''Blue'')])"
    by (simp add: robot_at_def heap_get_def)
  have d: "drawable (\<lambda>c. c = ''Blue'') HumanoidRobot [(''eye_color'', ''Blue'')]"
    by (simp add: drawable_def is_color_def get_def)
  from a b d draw_robot_deterministic [OF a b, of "\<lambda>c. c = ''Blue''"] show ?thesis
    by blast
qed

text \<open>
  Claim C6. For every object in the store that is an instance of neither \<open>HumanoidRobot\<close>
  nor \<open>HeavyRobot\<close> (whatever its name and its components), \<open>draw_robot\<close> returns, and
  the canvas then holds exactly one item, a text label. The label the code writes is
  \<open>Unknown Robot Type\<close>, at (200, 200).
\<close>

theorem draw_robot_unknown:
  assumes "heap_get s robot = Some obj"
    and "\<not> isinstance obj HumanoidRobot" and "\<not> isinstance obj HeavyRobot"
  shows "draw_robot colors robot s =
    Some (s\<lparr>canvas :=
      [create_text 200 200 [Text ''Unknown Robot Type'', Font ''Helvetica'' 16 []]]\<rparr>)"
  using assms
  by (simp add: draw_robot_def create_items_all unknown_calls_accepted)
    (simp add: unknown_calls_def)

theorem draw_robot_unknown_witness:
  "heap_get (process_start\<lparr>heap := [Robot OtherRobot ''Rover'' 7]\<rparr>) 0 =
     Some (Robot OtherRobot ''Rover'' 7) \<and>
   \<not> isinstance (Robot OtherRobot ''Rover'' 7) HumanoidRobot \<and>
   \<not> isinstance (Robot OtherRobot ''Rover'' 7) HeavyRobot \<and>
   draw_robot (\<lambda>c. False) 0 (process_start\<lparr>heap := [Robot OtherRobot ''Rover'' 7]\<rparr>) =
     Some (process_start\<lparr>heap := [Robot OtherRobot ''Rover'' 7], canvas :=
       [create_text 200 200 [Text ''Unknown Robot Type'', Font ''Helvetica'' 16 []]]\<rparr>)"
proof -
  have a: "heap_get (process_start\<lparr>heap := [Robot OtherRobot ''Rover'' 7]\<rparr>) 0 =
     Some (Robot OtherRobot ''Rover'' 7)"
    by (simp add: heap_get_def)
  have b: "\<not> isinstance (Robot OtherRobot ''Rover'' 7) HumanoidRobot"
    and c: "\<not> isinstance (Robot OtherRobot ''Rover'' 7) HeavyRobot"
    by (simp_all add: isinstance_def)
  from a b c draw_robot_unknown [OF a b c, of "\<lambda>c. False"] show ?thesis
    by simp
qed

text \<open>
  When the eye colour of a humanoid robot is a colour, the red chord arc of the mouth is
  the seventh item: right after the four items of the eyes and right before the first
  item of the torso.
\<close>

lemma humanoid_mouth_drawn:
  assumes "robot_at s r = Some (HumanoidRobot, name, components)"
    and "is_color colors (get components ''eye_color'' ''black'')"
  shows "\<exists>t. draw_robot colors r s = Some t \<and>
     take 4 (drop 2 (canvas t)) =
       [create_oval 185 60 195 70 [Fill ''white'', Outline ''black''],
        create_oval 188 63 192 67
          [Fill (get components ''eye_color'' ''black''),
           Outline (get components ''eye_color'' ''black'')],
        create_oval 205 60 215 70 [Fill ''white'', Outline ''black''],
        create_oval 208 63 212 67
          [Fill (get components ''eye_color'' ''black''),
           Outline (get components ''eye_color'' ''black'')]] \<and>
     canvas t ! 6 =
       create_arc 180 70 220 90 [Start 200, Extent 140, Style CHORD, Fill ''red''] \<and>
     canvas t ! 7 =
       (if lower (get components ''torso_style'' ''Standard'') = ''muscular''
        then create_rectangle 175 100 215 170
               [Fill ''lightblue'', Outline ''black'', Width 4]
        else create_rectangle 185 100 215 170
               [Fill ''skyblue'', Outline ''black'', Width 2])"
  using assms by (simp add: draw_robot_robot drawable_def humanoid_calls_def Let_def)

text \<open>
  Claim C10 does not hold of the code. The mouth is the seventh call of the humanoid
  branch, whatever the components hold; but when the eye colour is no colour, as
  \<open>Hazel\<close>, which the edit dialog offers, the fourth call (the first iris) raises
  after three items have been created, so that \<open>draw_robot\<close> raises and the call of the
  mouth is never made.
\<close>

theorem humanoid_mouth_not_drawn:
  assumes "robot_at s r = Some (HumanoidRobot, name, components)"
    and "\<not> is_color colors (get components ''eye_color'' ''black'')"
  shows "humanoid_calls components name ! 6 =
       create_arc 180 70 220 90 [Start 200, Extent 140, Style CHORD, Fill ''red''] \<and>
     create_items colors (take 3 (humanoid_calls components name)) [] =
       Some (take 3 (humanoid_calls components name)) \<and>
     \<not> accepted colors (humanoid_calls components name ! 3) \<and>
     draw_robot colors r s = None"
proof -
  have "humanoid_calls components name ! 6 =
       create_arc 180 70 220 90 [Start 200, Extent 140, Style CHORD, Fill ''red'']"
    by (simp add: humanoid_calls_def Let_def)
  moreover have "list_all (accepted colors) (take 3 (humanoid_calls components name))"
    by (simp add: humanoid_calls_def Let_def accepted_def is_color_def program_colors_def)
  then have "create_items colors (take 3 (humanoid_calls components name)) [] =
       Some (take 3 (humanoid_calls components name))"
    by (simp add: create_items_all)
  moreover have "\<not> accepted colors (humanoid_calls components name ! 3)"
    using assms(2) by (simp add: humanoid_calls_def Let_def accepted_def)
  moreover have "draw_robot colors r s = None"
    using assms by (simp add: draw_robot_robot drawable_def)
  ultimately show ?thesis
    by blast
qed

theorem humanoid_mouth_not_drawn_witness:
  "robot_at (process_start\<lparr>heap := [Dict [(''eye_color'', ''Hazel'')],
       Robot HumanoidRobot ''Ada_clone'' 0]\<rparr>) 1 =
     Some (HumanoidRobot, ''Ada_clone'', [(''eye_color'', ''Hazel'')]) \<and>
   \<not> is_color (\<lambda>c. c \<in> set [''Black'', ''Blue'', ''Green'', ''Brown''])
     (get [(''eye_color'', ''Hazel'')] ''eye_color'' ''black'') \<and>
   draw_robot (\<lambda>c. c \<in> set [''Black'', ''Blue'', ''Green'', ''Brown'']) 1
     (process_start\<lparr>heap := [Dict [(''eye_color'', ''Hazel'')],
       Robot HumanoidRobot ''Ada_clone'' 0]\<rparr>) = None"
proof -
  have a: "robot_at (process_start\<lparr>heap := [Dict [(''eye_color'', ''Hazel'')],
       Robot HumanoidRobot ''Ada_clone'' 0]\<rparr>) 1 =
     Some (HumanoidRobot, ''Ada_clone'', [(''eye_color'', ''Hazel'')])"
    by (simp add: robot_at_def heap_get_def)
  have b: "\<not> is_color (\<lambda>c. c \<in> set [''Black'', ''Blue'', ''Green'', ''Brown''])
     (get [(''eye_color'', ''Hazel'')] ''eye_color'' ''black'')"
    by (simp add: is_color_def get_def program_colors_def)
  from a b humanoid_mouth_not_drawn [OF a b] show ?thesis
    by blast
qed

subsection \<open>Values that are not recognised\<close>

lemma lower_defaults:
  "lower ''Oval'' = ''oval''" "lower ''Rectangle'' = ''rectangle''"
  "lower ''Standard'' = ''standard''" "lower ''None'' = ''none''"
  by code_simp+

lemma get_update: "get (AList.update key v d) k dflt = (if k = key then v else get d k dflt)"
  by (simp add: get_def update_conv')

lemma get_delete: "get (AList.delete key d) k dflt = (if k = key then dflt else get d k dflt)"
  by (simp add: get_def delete_conv')

lemma humanoid_calls_fallback:
  assumes "key \<in> {''head_style'', ''torso_style'', ''arm_style'', ''legs''}"
    and "lower v \<noteq> style_keyword HumanoidRobot key"
  shows "humanoid_calls (AList.update key v d) name = humanoid_calls (AList.delete key d) name"
proof -
  from assms(1) consider "key = ''head_style''" | "key = ''torso_style''"
    | "key = ''arm_style''" | "key = ''legs''"
    by blast
  then show ?thesis
  proof cases
    case 1
    with assms(2) have "lower v \<noteq> ''square''" by (simp add: style_keyword_def)
    with 1 show ?thesis
      by (simp add: humanoid_calls_def get_update get_delete lower_defaults)
  next
    case 2
    with assms(2) have "lower v \<noteq> ''muscular''" by (simp add: style_keyword_def)
    with 2 show ?thesis
      by (simp add: humanoid_calls_def get_update get_delete lower_defaults)
  next
    case 3
    with assms(2) have "lower v \<noteq> ''hydraulic''" by (simp add: style_keyword_def)
    with 3 show ?thesis
      by (simp add: humanoid_calls_def get_update get_delete lower_defaults)
  next
    case 4
    with assms(2) have "lower v \<noteq> ''wide''" by (simp add: style_keyword_def)
    with 4 show ?thesis
      by (simp add: humanoid_calls_def get_update get_delete lower_defaults)
  qed
qed

lemma heavy_calls_fallback:
  assumes "key \<in> {''head_style'', ''torso_style'', ''arm_style'', ''legs''}"
    and "lower v \<noteq> style_keyword HeavyRobot key"
  shows "heavy_calls (AList.update key v d) name = heavy_calls (AList.delete key d) name"
proof -
  from assms(1) consider "key = ''head_style''" | "key = ''torso_style''"
    | "key = ''arm_style''" | "key = ''legs''"
    by blast
  then show ?thesis
  proof cases
    case 1
    with assms(2) have "lower v \<noteq> ''dome''" by (simp add: style_keyword_def)
    with 1 show ?thesis
      by (simp add: heavy_calls_def get_update get_delete lower_defaults)
  next
    case 2
    with assms(2) have "lower v \<noteq> ''armored''" by (simp add: style_keyword_def)
    with 2 show ?thesis
      by (simp add: heavy_calls_def get_update get_delete lower_defaults)
  next
    case 3
    with assms(2) have "lower v \<noteq> ''robotic''" by (simp add: style_keyword_def)
    with 3 show ?thesis
      by (simp add: heavy_calls_def get_update get_delete lower_defaults)
  next
    case 4
    with assms(2) have "lower v \<noteq> ''wide''" by (simp add: style_keyword_def)
    with 4 show ?thesis
      by (simp add: heavy_calls_def get_update get_delete lower_defaults)
  qed
qed

text \<open>
  Claim C4, as amended. For each class and each of the keys \<open>head_style\<close>,
  \<open>torso_style\<close>, \<open>arm_style\<close> and \<open>legs\<close>: when the key is bound to a value whose
  lower-cased form is not the keyword that class's branch tests the key for,
  \<open>draw_robot\<close> has the outcome it has when the key is absent (the other components
  being the same): it returns exactly when it returns with the key absent, and then
  creates exactly the same items. The claim as stated fails for the key \<open>antenna\<close>,
  where every value but \<open>none\<close> draws the antenna.
\<close>

theorem draw_robot_fallback:
  assumes "key \<in> {''head_style'', ''torso_style'', ''arm_style'', ''legs''}"
    and "lower v \<noteq> style_keyword c key"
    and "robot_at s1 r1 = Some (c, name, AList.update key v components)"
    and "robot_at s2 r2 = Some (c, name, AList.delete key components)"
  shows "map_option canvas (draw_robot colors r1 s1) =
       map_option canvas (draw_robot colors r2 s2) \<and>
     (draw_robot colors r1 s1 \<noteq> None) = drawable colors c (AList.delete key components) \<and>
     (draw_robot colors r2 s2 \<noteq> None) = drawable colors c (AList.delete key components)"
proof -
  from assms(1) have "key \<noteq> ''eye_color''"
    by auto
  then have d: "drawable colors c (AList.update key v components) =
      drawable colors c (AList.delete key components)"
    by (cases c) (auto simp: drawable_def get_update get_delete)
  show ?thesis
  proof (cases c)
    case HumanoidRobot
    with assms d show ?thesis
      by (simp add: draw_robot_robot humanoid_calls_fallback)
  next
    case HeavyRobot
    with assms d show ?thesis
      by (simp add: draw_robot_robot heavy_calls_fallback)
  next
    case OtherRobot
    with assms d show ?thesis
      by (simp add: draw_robot_robot)
  qed
qed

theorem draw_robot_fallback_witness:
  "''torso_style'' \<in> {''head_style'', ''torso_style'', ''arm_style'', ''legs''} \<and>
   lower ''Armored'' \<noteq> style_keyword HumanoidRobot ''torso_style'' \<and>
   robot_at (process_start\<lparr>heap := [Dict [(''torso_style'', ''Armored'')],
       Robot HumanoidRobot ''Ada'' 0, Dict [], Robot HumanoidRobot ''Ada'' 2]\<rparr>) 1 =
     Some (HumanoidRobot, ''Ada'', AList.update ''torso_style'' ''Armored'' []) \<and>
   robot_at (process_start\<lparr>heap := [Dict [(''torso_style'', ''Armored'')],
       Robot HumanoidRobot ''Ada'' 0, Dict [], Robot HumanoidRobot ''Ada'' 2]\<rparr>) 3 =
     Some (HumanoidRobot, ''Ada'', AList.delete ''torso_style'' []) \<and>
   map_option canvas
     (draw_robot (\<lambda>c. False) 1 (process_start\<lparr>heap := [Dict [(''torso_style'', ''Armored'')],
        Robot HumanoidRobot ''Ada'' 0, Dict [], Robot HumanoidRobot ''Ada'' 2]\<rparr>)) =
   map_option canvas
     (draw_robot (\<lambda>c. False) 3 (process_start\<lparr>heap := [Dict [(''torso_style'', ''Armored'')],
        Robot HumanoidRobot ''Ada'' 0, Dict [], Robot HumanoidRobot ''Ada'' 2]\<rparr>)) \<and>
   draw_robot (\<lambda>c. False) 1 (process_start\<lparr>heap := [Dict [(''torso_style'', ''Armored'')],
        Robot HumanoidRobot ''Ada'' 0, Dict [], Robot HumanoidRobot ''Ada'' 2]\<rparr>) \<noteq> None"
proof -
  have k: "''torso_style'' \<in> {''head_style'', ''torso_style'', ''arm_style'', ''legs''}"
    by simp
  have "lower ''Armored'' = ''armored''"
    by code_simp
  then have l: "lower ''Armored'' \<noteq> style_keyword HumanoidRobot ''torso_style''"
    by (simp add: style_keyword_def)
  have a: "robot_at (process_start\<lparr>heap := [Dict [(''torso_style'', ''Armored'')],
       Robot HumanoidRobot ''Ada'' 0, Dict [], Robot HumanoidRobot ''Ada'' 2]\<rparr>) 1 =
     Some (HumanoidRobot, ''Ada'', AList.update ''torso_style'' ''Armored'' [])"
    by (simp add: robot_at_def heap_get_def)
  have b: "robot_at (process_start\<lparr>heap := [Dict [(''torso_style'', ''Armored'')],
       Robot HumanoidRobot ''Ada'' 0, Dict [], Robot HumanoidRobot ''Ada'' 2]\<rparr>) 3 =
     Some (HumanoidRobot, ''Ada'', AList.delete ''torso_style'' [])"
    by (simp add: robot_at_def heap_get_def)
  have d: "drawable (\<lambda>c. False) HumanoidRobot (AList.delete ''torso_style'' [])"
    by (simp add: drawable_def is_color_def get_def program_colors_def)
  from k l a b d draw_robot_fallback [OF k l a b, of "\<lambda>c. False"] show ?thesis
    by blast
qed

text \<open>
  The claim as stated fails: \<open>Huge\<close> is none of the values documented for \<open>antenna\<close>,
  and a humanoid robot whose \<open>antenna\<close> is \<open>Huge\<close> is drawn with the three items of the
  antenna, which the same robot without the key does not get.
\<close>

theorem draw_robot_fallback_counterexample:
  "''Huge'' \<notin> set (options HumanoidRobot ''antenna'') \<and>
   robot_at (process_start\<lparr>heap := [Dict [(''antenna'', ''Huge'')],
       Robot HumanoidRobot ''Ada'' 0, Dict [], Robot HumanoidRobot ''Ada'' 2]\<rparr>) 1 =
     Some (HumanoidRobot, ''Ada'', AList.update ''antenna'' ''Huge'' []) \<and>
   robot_at (process_start\<lparr>heap := [Dict [(''antenna'', ''Huge'')],
       Robot HumanoidRobot ''Ada'' 0, Dict [], Robot HumanoidRobot ''Ada'' 2]\<rparr>) 3 =
     Some (HumanoidRobot, ''Ada'', AList.delete ''antenna'' []) \<and>
   map_option canvas
     (draw_robot (\<lambda>c. False) 1 (process_start\<lparr>heap := [Dict [(''antenna'', ''Huge'')],
       Robot HumanoidRobot ''Ada'' 0, Dict [], Robot HumanoidRobot ''Ada'' 2]\<rparr>)) \<noteq>
   map_option canvas
     (draw_robot (\<lambda>c. False) 3 (process_start\<lparr>heap := [Dict [(''antenna'', ''Huge'')],
       Robot HumanoidRobot ''Ada'' 0, Dict [], Robot HumanoidRobot ''Ada'' 2]\<rparr>))"
proof -
  have o: "''Huge'' \<notin> set (options HumanoidRobot ''antenna'')"
    by (simp add: options_def)
  have a: "robot_at (process_start\<lparr>heap := [Dict [(''antenna'', ''Huge'')],
       Robot HumanoidRobot ''Ada'' 0, Dict [], Robot HumanoidRobot ''Ada'' 2]\<rparr>) 1 =
     Some (HumanoidRobot, ''Ada'', AList.update ''antenna'' ''Huge'' [])"
    by (simp add: robot_at_def heap_get_def)
  have b: "robot_at (process_start\<lparr>heap := [Dict [(''antenna'', ''Huge'')],
       Robot HumanoidRobot ''Ada'' 0, Dict [], Robot HumanoidRobot ''Ada'' 2]\<rparr>) 3 =
     Some (HumanoidRobot, ''Ada'', AList.delete ''antenna'' [])"
    by (simp add: robot_at_def heap_get_def)
  have l: "lower ''Huge'' = ''huge''"
    by code_simp
  have "length (humanoid_calls (AList.update ''antenna'' ''Huge'' []) ''Ada'') = 20"
    by (simp add: humanoid_calls_def Let_def get_def lower_defaults l)
  moreover have "length (humanoid_calls (AList.delete ''antenna'' []) ''Ada'') = 17"
    by (simp add: humanoid_calls_def Let_def get_def lower_defaults)
  ultimately have "humanoid_calls (AList.update ''antenna'' ''Huge'' []) ''Ada'' \<noteq>
      humanoid_calls (AList.delete ''antenna'' []) ''Ada''"
    by auto
  then have "map_option canvas
     (draw_robot (\<lambda>c. False) 1 (process_start\<lparr>heap := [Dict [(''antenna'', ''Huge'')],
       Robot HumanoidRobot ''Ada'' 0, Dict [], Robot HumanoidRobot ''Ada'' 2]\<rparr>)) \<noteq>
   map_option canvas
     (draw_robot (\<lambda>c. False) 3 (process_start\<lparr>heap := [Dict [(''antenna'', ''Huge'')],
       Robot HumanoidRobot ''Ada'' 0, Dict [], Robot HumanoidRobot ''Ada'' 2]\<rparr>))"
    unfolding draw_robot_robot [OF a] draw_robot_robot [OF b]
    by (simp add: drawable_def is_color_def get_def program_colors_def)
  with o a b show ?thesis
    by blast
qed

section \<open>The singleton logger\<close>

lemma SingletonLogger_new_again:
  "SingletonLogger_instance s = Some a \<Longrightarrow> SingletonLogger_new cb s = (a, s)"
  by (simp add: SingletonLogger_new_def)

lemma SingletonLogger_news_again:
  "SingletonLogger_instance s = Some a \<Longrightarrow>
     SingletonLogger_news cbs s = (replicate (length cbs) a, s)"
  by (induction cbs) (simp_all add: SingletonLogger_new_again)

text \<open>
  Claim C9. The logger is a lazily created singleton. A process starts with no instance.
  A constructor call returns the instance and leaves it registered: when there was none,
  the call creates it, as a new object bound to the call's callback; when there was one,
  the call returns that one and changes nothing. After that call, every further run of
  constructor calls, whatever their callback arguments, returns the same instance each
  time and leaves the whole state, so the bound callback too, as it was.
\<close>

theorem SingletonLogger_singleton:
  "SingletonLogger_instance process_start = None \<and>
   (\<exists>a s1. SingletonLogger_new cb s = (a, s1) \<and>
      SingletonLogger_instance s1 = Some a \<and>
      (case SingletonLogger_instance s of
         None \<Rightarrow> a = length (heap s) \<and> heap s1 = heap s @ [Logger cb]
       | Some a0 \<Rightarrow> a = a0 \<and> s1 = s) \<and>
      SingletonLogger_news cbs s1 = (replicate (length cbs) a, s1))"
proof -
  obtain a s1 where new: "SingletonLogger_new cb s = (a, s1)"
    by (cases "SingletonLogger_new cb s")
  have inst: "SingletonLogger_instance s1 = Some a"
    using new by (auto simp: SingletonLogger_new_def alloc_def split: option.splits)
  have "case SingletonLogger_instance s of
         None \<Rightarrow> a = length (heap s) \<and> heap s1 = heap s @ [Logger cb]
       | Some a0 \<Rightarrow> a = a0 \<and> s1 = s"
    using new by (auto simp: SingletonLogger_new_def alloc_def split: option.splits)
  with new inst SingletonLogger_news_again [OF inst] show ?thesis
    by (simp add: process_start_def)
qed

section \<open>Cloning\<close>

text \<open>
  Claim C7. With no last robot, \<open>clone_robot\<close> returns and changes neither the list of
  robots nor the last robot (nor the store, the canvas, the list box or the windows); it
  logs one message: one line is printed, and the logger's callback, when one is bound,
  is called once with that line.
\<close>

theorem clone_robot_no_source:
  assumes "last_robot s = None" and "heap_get s (logger s) = Some (Logger cb)"
  shows "\<exists>s'. clone_robot colors s = Some s' \<and>
     robots s' = robots s \<and> last_robot s' = None \<and> heap s' = heap s \<and>
     canvas s' = canvas s \<and> robot_listbox s' = robot_listbox s \<and>
     edit_windows s' = edit_windows s \<and>
     stdout s' = stdout s @ [''[LOG]: No robot to clone.''] \<and>
     log_text s' =
       (if cb = Some App_update_log
        then log_text s @ ''[LOG]: No robot to clone.'' @ [CHR 0x0A]
        else log_text s) \<and>
     callback_calls s' =
       (case cb of
          Some (Other_callback n) \<Rightarrow>
            callback_calls s @ [(n, ''[LOG]: No robot to clone.'' @ [CHR 0x0A])]
        | _ \<Rightarrow> callback_calls s)"
  using assms
  by (simp add: clone_robot_def log_def call_callback_def update_log_def
      split: option.splits callback.splits)

theorem clone_robot_no_source_witness:
  "last_robot (process_start\<lparr>heap := [Logger (Some App_update_log)],
      SingletonLogger_instance := Some 0\<rparr>) = None \<and>
   heap_get (process_start\<lparr>heap := [Logger (Some App_update_log)],
      SingletonLogger_instance := Some 0\<rparr>)
     (logger (process_start\<lparr>heap := [Logger (Some App_update_log)],
      SingletonLogger_instance := Some 0\<rparr>)) = Some (Logger (Some App_update_log)) \<and>
   (\<exists>s'. clone_robot (\<lambda>c. False) (process_start\<lparr>heap := [Logger (Some App_update_log)],
      SingletonLogger_instance := Some 0\<rparr>) = Some s' \<and>
      robots s' = [] \<and> last_robot s' = None \<and>
      stdout s' = [''[LOG]: No robot to clone.''] \<and>
      log_text s' = ''[LOG]: No robot to clone.'' @ [CHR 0x0A])"
proof -
  have a: "last_robot (process_start\<lparr>heap := [Logger (Some App_update_log)],
      SingletonLogger_instance := Some 0\<rparr>) = None"
    by (simp add: process_start_def)
  have b: "heap_get (process_start\<lparr>heap := [Logger (Some App_update_log)],
      SingletonLogger_instance := Some 0\<rparr>)
     (logger (process_start\<lparr>heap := [Logger (Some App_update_log)],
      SingletonLogger_instance := Some 0\<rparr>)) = Some (Logger (Some App_update_log))"
    by (simp add: process_start_def heap_get_def)
  have f: "robots process_start = []" "stdout process_start = []" "log_text process_start = []"
    by (simp_all add: process_start_def)
  show ?thesis
    using a b clone_robot_no_source [OF a b, of "\<lambda>c. False"] by (simp add: f) blast
qed

section \<open>Construction\<close>

lemma heap_get_Some_less: "heap_get s a = Some x \<Longrightarrow> a < length (heap s)"
  by (simp add: heap_get_def split: if_splits)

lemma heap_get_append:
  "heap s' = heap s @ ys \<Longrightarrow> a < length (heap s) \<Longrightarrow> heap_get s' a = heap_get s a"
  by (simp add: heap_get_def nth_append)

lemma same_app_refl: "same_app s s"
  by (simp add: same_app_def)

lemma same_app_trans: "same_app s s' \<Longrightarrow> same_app s' s'' \<Longrightarrow> same_app s s''"
  by (simp add: same_app_def)

lemma log_effect:
  assumes "heap_get s a = Some (Logger cb)"
  shows "\<exists>s'. log a message s = Some s' \<and> heap s' = heap s \<and>
     SingletonLogger_instance s' = SingletonLogger_instance s \<and> same_app s s' \<and>
     stdout s' = stdout s @ [''[LOG]: '' @ message]"
proof (cases cb)
  case None
  with assms show ?thesis
    by (simp add: log_def Let_def same_app_def)
next
  case (Some f)
  with assms show ?thesis
    by (cases f) (simp_all add: log_def Let_def call_callback_def update_log_def same_app_def)
qed

lemma SingletonLogger_log_effect:
  assumes "instance_ok s"
  shows "\<exists>s' ys. SingletonLogger_log message s = Some s' \<and> heap s' = heap s @ ys \<and>
     instance_ok s' \<and> same_app s s'"
proof (cases "SingletonLogger_instance s")
  case None
  then show ?thesis
    by (simp add: SingletonLogger_log_def SingletonLogger_new_def alloc_def log_def
        heap_get_def instance_ok_def same_app_def)
next
  case (Some a)
  with assms obtain cb where cb: "heap_get s a = Some (Logger cb)"
    by (auto simp: instance_ok_def split: option.splits pyobj.splits)
  from log_effect [OF cb] obtain s' where
    s': "log a message s = Some s'" "heap s' = heap s"
      "SingletonLogger_instance s' = SingletonLogger_instance s" "same_app s s'"
    by blast
  have "instance_ok s'"
    using assms unfolding instance_ok_def heap_get_heap [OF s'(2)] s'(3) .
  with Some s' show ?thesis
    by (simp add: SingletonLogger_log_def SingletonLogger_new_def)
qed

lemma heap_get_update:
  "d < length (heap s) \<Longrightarrow>
     heap_get (s\<lparr>heap := (heap s)[d := x]\<rparr>) a = (if a = d then Some x else heap_get s a)"
  by (simp add: heap_get_def)

lemma building_log:
  assumes "building s0 r d c name m s"
  shows "\<exists>s'. SingletonLogger_log message s = Some s' \<and> building s0 r d c name m s'"
proof -
  from assms have ok: "instance_ok s" and app: "same_app s0 s"
    and len: "length (heap s0) \<le> length (heap s)"
    and old: "\<forall>a < length (heap s0). heap_get s a = heap_get s0 a"
    and d: "length (heap s0) \<le> d"
    and r: "heap_get s r = Some (Robot c name d)" and m: "heap_get s d = Some (Dict m)"
    by (simp_all add: building_def)
  from SingletonLogger_log_effect [OF ok] obtain s' ys where
    s': "SingletonLogger_log message s = Some s'" "heap s' = heap s @ ys"
      "instance_ok s'" "same_app s s'"
    by blast
  have keep: "heap_get s' a = heap_get s a" if "a < length (heap s)" for a
    using heap_get_append [OF s'(2) that] .
  have "heap_get s' r = Some (Robot c name d)"
    using keep [OF heap_get_Some_less [OF r]] r by simp
  moreover have "heap_get s' d = Some (Dict m)"
    using keep [OF heap_get_Some_less [OF m]] m by simp
  moreover have "\<forall>a < length (heap s0). heap_get s' a = heap_get s0 a"
    using old keep len by simp
  moreover have "length (heap s0) \<le> length (heap s')"
    using len s'(2) by simp
  ultimately have "building s0 r d c name m s'"
    using s'(3) d same_app_trans [OF app s'(4)] by (simp add: building_def)
  with s'(1) show ?thesis
    by blast
qed

lemma building_setitem:
  assumes "building s0 r d c name m s"
  shows "\<exists>s'. components_setitem r key v s = Some s' \<and>
     building s0 r d c name (AList.update key v m) s'"
proof -
  from assms have ok: "instance_ok s" and app: "same_app s0 s"
    and len: "length (heap s0) \<le> length (heap s)"
    and old: "\<forall>a < length (heap s0). heap_get s a = heap_get s0 a"
    and d: "length (heap s0) \<le> d"
    and r: "heap_get s r = Some (Robot c name d)" and m: "heap_get s d = Some (Dict m)"
    by (simp_all add: building_def)
  let ?s' = "s\<lparr>heap := (heap s)[d := Dict (AList.update key v m)]\<rparr>"
  have set: "components_setitem r key v s = Some ?s'"
    using r m by (simp add: components_setitem_def)
  have dl: "d < length (heap s)"
    using heap_get_Some_less [OF m] .
  have get: "heap_get ?s' a = (if a = d then Some (Dict (AList.update key v m)) else heap_get s a)"
    for a
    using heap_get_update [OF dl] .
  have "r \<noteq> d"
    using r m by auto
  then have r': "heap_get ?s' r = Some (Robot c name d)"
    using r by (simp add: get)
  have m': "heap_get ?s' d = Some (Dict (AList.update key v m))"
    by (simp add: get)
  have old': "\<forall>a < length (heap s0). heap_get ?s' a = heap_get s0 a"
    using old d by (simp add: get)
  have ok': "instance_ok ?s'"
  proof (cases "SingletonLogger_instance s")
    case None
    then show ?thesis by (simp add: instance_ok_def)
  next
    case (Some a)
    with ok obtain cb where cb: "heap_get s a = Some (Logger cb)"
      by (auto simp: instance_ok_def split: option.splits pyobj.splits)
    with m have "a \<noteq> d" by auto
    with cb have "heap_get ?s' a = Some (Logger cb)" by (simp add: get)
    with Some show ?thesis by (simp add: instance_ok_def)
  qed
  have "same_app s0 ?s'"
    using app by (simp add: same_app_def)
  with ok' len old' d r' m' have "building s0 r d c name (AList.update key v m) ?s'"
    by (simp add: building_def)
  with set show ?thesis
    by blast
qed

lemma building_start:
  assumes "instance_ok s" and "same_app s0 s" and "length (heap s0) \<le> length (heap s)"
    and "\<forall>a < length (heap s0). heap_get s a = heap_get s0 a"
  shows "\<exists>r d s'. Robot_init c name s = (r, s') \<and> building s0 r d c name [] s'"
proof -
  let ?d = "length (heap s)"
  let ?s' = "s\<lparr>heap := heap s @ [Dict [], Robot c name ?d]\<rparr>"
  have init: "Robot_init c name s = (Suc ?d, ?s')"
    by (simp add: Robot_init_def alloc_def)
  have keep: "heap_get ?s' a = heap_get s a" if "a < length (heap s)" for a
    using that by (simp add: heap_get_def nth_append)
  have ok': "instance_ok ?s'"
  proof (cases "SingletonLogger_instance s")
    case None
    then show ?thesis by (simp add: instance_ok_def)
  next
    case (Some a)
    with assms(1) obtain cb where cb: "heap_get s a = Some (Logger cb)"
      by (auto simp: instance_ok_def split: option.splits pyobj.splits)
    with keep [OF heap_get_Some_less [OF cb]] have "heap_get ?s' a = Some (Logger cb)"
      by simp
    with Some show ?thesis by (simp add: instance_ok_def)
  qed
  have "heap_get ?s' (Suc ?d) = Some (Robot c name ?d)" "heap_get ?s' ?d = Some (Dict [])"
    by (simp_all add: heap_get_def nth_append)
  moreover have "\<forall>a < length (heap s0). heap_get ?s' a = heap_get s0 a"
    using assms(3,4) keep by simp
  moreover have "same_app s0 ?s'"
    using assms(2) by (simp add: same_app_def)
  ultimately have "building s0 (Suc ?d) ?d c name [] ?s'"
    using ok' assms(3) by (simp add: building_def)
  with init show ?thesis
    by blast
qed

lemma build_head_building:
  assumes "building s0 r d c name m s"
    and "b = HumanoidRobotBuilder r pf \<or> b = HeavyRobotBuilder r pf"
  shows "\<exists>s'. build_head b s = Some s' \<and>
     building s0 r d c name (AList.update ''head'' (create_head pf) m) s'"
proof -
  from building_setitem [OF assms(1)] obtain s1 where
    s1: "components_setitem r ''head'' (create_head pf) s = Some s1"
      "building s0 r d c name (AList.update ''head'' (create_head pf) m) s1"
    by blast
  from assms(2) s1(1) building_log [OF s1(2)] show ?thesis
    by auto
qed

lemma build_torso_building:
  assumes "building s0 r d c name m s"
    and "b = HumanoidRobotBuilder r pf \<or> b = HeavyRobotBuilder r pf"
  shows "\<exists>s'. build_torso b s = Some s' \<and>
     building s0 r d c name (AList.update ''torso'' (create_torso pf) m) s'"
proof -
  from building_setitem [OF assms(1)] obtain s1 where
    s1: "components_setitem r ''torso'' (create_torso pf) s = Some s1"
      "building s0 r d c name (AList.update ''torso'' (create_torso pf) m) s1"
    by blast
  from assms(2) s1(1) building_log [OF s1(2)] show ?thesis
    by auto
qed

lemma build_limbs_building:
  assumes "building s0 r d c name m s"
    and "b = HumanoidRobotBuilder r pf \<or> b = HeavyRobotBuilder r pf"
  shows "\<exists>s'. build_limbs b s = Some s' \<and>
     building s0 r d c name (AList.update ''limbs'' (create_limbs pf) m) s'"
proof -
  from building_setitem [OF assms(1)] obtain s1 where
    s1: "components_setitem r ''limbs'' (create_limbs pf) s = Some s1"
      "building s0 r d c name (AList.update ''limbs'' (create_limbs pf) m) s1"
    by blast
  from assms(2) s1(1) building_log [OF s1(2)] show ?thesis
    by auto
qed

text \<open>The director's sequence on a builder whose robot has no component yet.\<close>

lemma construct_robot_building:
  assumes "building s0 r d c name [] s"
    and b: "b = HumanoidRobotBuilder r pf \<or> b = HeavyRobotBuilder r pf"
  shows "\<exists>s'. construct_robot (RobotDirector b) s = Some (r, s') \<and>
     building s0 r d c name
       [(''head'', create_head pf), (''torso'', create_torso pf), (''limbs'', create_limbs pf)]
       s'"
proof -
  from build_head_building [OF assms(1) b] obtain s1 where
    s1: "build_head b s = Some s1" "building s0 r d c name [(''head'', create_head pf)] s1"
    by auto
  from build_torso_building [OF s1(2) b] obtain s2 where
    s2: "build_torso b s1 = Some s2"
      "building s0 r d c name [(''head'', create_head pf), (''torso'', create_torso pf)] s2"
    by auto
  from build_limbs_building [OF s2(2) b] obtain s3 where
    s3: "build_limbs b s2 = Some s3"
      "building s0 r d c name
         [(''head'', create_head pf), (''torso'', create_torso pf),
          (''limbs'', create_limbs pf)] s3"
    by auto
  from b have "get_robot b = r"
    by auto
  with s1(1) s2(1) s3 show ?thesis
    by simp
qed

lemma create_robot_humanoid_building:
  assumes "instance_ok s"
  shows "\<exists>r d s'. create_robot HumanoidRobotFactory name s = Some (r, s') \<and>
     building s r d HumanoidRobot name
       [(''head'', ''Smart Face''), (''torso'', ''Sleek Body''), (''limbs'', ''Agile Limbs'')]
       s'"
proof -
  from SingletonLogger_log_effect [OF assms] obtain s1 ys where
    s1: "SingletonLogger_log (''Creating Humanoid Robot: '' @ name) s = Some s1"
      "heap s1 = heap s @ ys" "instance_ok s1" "same_app s s1"
    by blast
  have "\<forall>a < length (heap s). heap_get s1 a = heap_get s a"
    using heap_get_append [OF s1(2)] by simp
  moreover have "length (heap s) \<le> length (heap s1)"
    using s1(2) by simp
  ultimately obtain r d s1' where
    init: "Robot_init HumanoidRobot name s1 = (r, s1')"
      "building s r d HumanoidRobot name [] s1'"
    using building_start [OF s1(3,4)] by blast
  from building_log [OF init(2)] obtain s2 where
    s2: "SingletonLogger_log ''HumanoidRobotBuilder initialized'' s1' = Some s2"
      "building s r d HumanoidRobot name [] s2"
    by blast
  from building_log [OF s2(2)] obtain s3 where
    s3: "SingletonLogger_log ''RobotDirector initialized'' s2 = Some s3"
      "building s r d HumanoidRobot name [] s3"
    by blast
  from construct_robot_building [OF s3(2), of "HumanoidRobotBuilder r HumanoidPartFactory"
      HumanoidPartFactory]
  obtain s4 where
    s4: "construct_robot (RobotDirector (HumanoidRobotBuilder r HumanoidPartFactory)) s3 =
        Some (r, s4)"
      "building s r d HumanoidRobot name
        [(''head'', ''Smart Face''), (''torso'', ''Sleek Body''), (''limbs'', ''Agile Limbs'')]
        s4"
    by auto
  have "create_robot HumanoidRobotFactory name s = Some (r, s4)"
    using s1(1) init(1) s2(1) s3(1) s4(1)
    by (simp add: HumanoidRobotBuilder_init_def RobotDirector_init_def)
  with s4(2) show ?thesis
    by blast
qed

lemma create_robot_heavy_building:
  assumes "instance_ok s"
  shows "\<exists>r d s'. create_robot HeavyRobotFactory name s = Some (r, s') \<and>
     building s r d HeavyRobot name
       [(''head'', ''Armored Head''), (''torso'', ''Reinforced Frame''),
        (''limbs'', ''Robust Limbs'')]
       s'"
proof -
  from SingletonLogger_log_effect [OF assms] obtain s1 ys where
    s1: "SingletonLogger_log (''Creating Heavy Robot: '' @ name) s = Some s1"
      "heap s1 = heap s @ ys" "instance_ok s1" "same_app s s1"
    by blast
  have "\<forall>a < length (heap s). heap_get s1 a = heap_get s a"
    using heap_get_append [OF s1(2)] by simp
  moreover have "length (heap s) \<le> length (heap s1)"
    using s1(2) by simp
  ultimately obtain r d s1' where
    init: "Robot_init HeavyRobot name s1 = (r, s1')"
      "building s r d HeavyRobot name [] s1'"
    using building_start [OF s1(3,4)] by blast
  from building_log [OF init(2)] obtain s2 where
    s2: "SingletonLogger_log ''HeavyRobotBuilder initialized'' s1' = Some s2"
      "building s r d HeavyRobot name [] s2"
    by blast
  from building_log [OF s2(2)] obtain s3 where
    s3: "SingletonLogger_log ''RobotDirector initialized'' s2 = Some s3"
      "building s r d HeavyRobot name [] s3"
    by blast
  from construct_robot_building [OF s3(2), of "HeavyRobotBuilder r HeavyPartFactory"
      HeavyPartFactory]
  obtain s4 where
    s4: "construct_robot (RobotDirector (HeavyRobotBuilder r HeavyPartFactory)) s3 =
        Some (r, s4)"
      "building s r d HeavyRobot name
        [(''head'', ''Armored Head''), (''torso'', ''Reinforced Frame''),
         (''limbs'', ''Robust Limbs'')]
        s4"
    by auto
  have "create_robot HeavyRobotFactory name s = Some (r, s4)"
    using s1(1) init(1) s2(1) s3(1) s4(1)
    by (simp add: HeavyRobotBuilder_init_def RobotDirector_init_def)
  with s4(2) show ?thesis
    by blast
qed

lemma heap_get_fields [simp]:
  "heap_get (s\<lparr>robots := rs\<rparr>) = heap_get s"
  "heap_get (s\<lparr>last_robot := l\<rparr>) = heap_get s"
  "heap_get (s\<lparr>robot_listbox := xs\<rparr>) = heap_get s"
  "heap_get (s\<lparr>edit_windows := ws\<rparr>) = heap_get s"
  by (rule heap_get_heap, simp)+

lemma robot_at_fields [simp]:
  "robot_at (s\<lparr>robots := rs\<rparr>) = robot_at s"
  "robot_at (s\<lparr>last_robot := l\<rparr>) = robot_at s"
  "robot_at (s\<lparr>robot_listbox := xs\<rparr>) = robot_at s"
  "robot_at (s\<lparr>edit_windows := ws\<rparr>) = robot_at s"
  by (rule robot_at_heap, simp)+

lemma building_robot_at:
  "building s0 r d c name m s \<Longrightarrow> robot_at s r = Some (c, name, m)"
  by (simp add: building_def robot_at_def)

lemma building_old_robot:
  assumes "building s0 r d c name m s" and "robot_at s0 x \<noteq> None"
  shows "robot_at s x = robot_at s0 x"
proof -
  from assms(2) obtain c' n' m' where x: "robot_at s0 x = Some (c', n', m')"
    by (cases "robot_at s0 x") auto
  from robot_at_heap_get [OF x] obtain d' where
    d': "heap_get s0 x = Some (Robot c' n' d')" "heap_get s0 d' = Some (Dict m')"
    by blast
  from assms(1) have old: "\<forall>a < length (heap s0). heap_get s a = heap_get s0 a"
    by (simp add: building_def)
  from old heap_get_Some_less [OF d'(1)] d'(1) have "heap_get s x = Some (Robot c' n' d')"
    by simp
  moreover from old heap_get_Some_less [OF d'(2)] d'(2) have "heap_get s d' = Some (Dict m')"
    by simp
  ultimately show ?thesis
    using x by (simp add: heap_get_robot_at)
qed

lemma robot_strs_Some:
  "list_all (\<lambda>r. robot_at s r \<noteq> None) rs \<Longrightarrow> \<exists>xs. robot_strs s rs = Some xs"
proof (induction rs)
  case Nil
  then show ?case by simp
next
  case (Cons r rs)
  then obtain xs where "robot_strs s rs = Some xs"
    by auto
  moreover from Cons.prems obtain x where "robot_str s r = Some x"
    by (auto simp: robot_str_def split: option.splits)
  ultimately show ?case
    by simp
qed

lemma update_robot_list_effect:
  assumes "list_all (\<lambda>r. robot_at s r \<noteq> None) (robots s)"
  shows "\<exists>xs. update_robot_list s = Some (s\<lparr>robot_listbox := xs\<rparr>)"
  using robot_strs_Some [OF assms] by (auto simp: update_robot_list_def)

lemma instance_ok_same:
  assumes "heap t = heap s" and "SingletonLogger_instance t = SingletonLogger_instance s"
  shows "instance_ok t = instance_ok s"
  unfolding instance_ok_def heap_get_heap [OF assms(1)] assms(2) ..

lemma app_ok_same:
  assumes "heap t = heap s" and "SingletonLogger_instance t = SingletonLogger_instance s"
    and "logger t = logger s" and "robots t = robots s"
  shows "app_ok t = app_ok s"
  unfolding app_ok_def instance_ok_same [OF assms(1,2)] heap_get_heap [OF assms(1)]
    robot_at_heap [OF assms(1)] assms(3,4) ..

text \<open>
  The steps of \<open>create_humanoid_robot\<close> and \<open>create_heavy_robot\<close> after the factory has
  returned: the robot is registered, logged, listed and drawn.
\<close>

lemma register_steps:
  assumes ok: "app_ok s" and b: "building s r d c name m s1"
    and dr: "drawable colors c m"
  shows "\<exists>str s4 s5 s'.
     robot_str (s1\<lparr>last_robot := Some r, robots := robots s1 @ [r]\<rparr>) r = Some str \<and>
     log (logger s1) (pre @ str) (s1\<lparr>last_robot := Some r, robots := robots s1 @ [r]\<rparr>) =
       Some s4 \<and>
     update_robot_list s4 = Some s5 \<and> draw_robot colors r s5 = Some s' \<and>
     last_robot s' = Some r \<and> robots s' = robots s @ [r] \<and>
     robot_at s' r = Some (c, name, m) \<and> app_ok s'"
proof -
  let ?s3 = "s1\<lparr>last_robot := Some r, robots := robots s1 @ [r]\<rparr>"
  have h3: "heap ?s3 = heap s1"
    by simp
  have at3: "robot_at ?s3 = robot_at s1"
    by (rule robot_at_heap) simp
  have app: "same_app s s1"
    using b by (simp add: building_def)
  have r3: "robot_at ?s3 r = Some (c, name, m)"
    using building_robot_at [OF b] by (simp add: at3)
  then have str: "robot_str ?s3 r = Some (name @ '': '' @ dict_str m)"
    by (simp add: robot_str_def)
  from ok obtain cb where cb: "heap_get s (logger s) = Some (Logger cb)"
    by (auto simp: app_ok_def split: option.splits pyobj.splits)
  from b have old: "\<forall>a < length (heap s). heap_get s1 a = heap_get s a"
    by (simp add: building_def)
  with heap_get_Some_less [OF cb] cb have "heap_get s1 (logger s) = Some (Logger cb)"
    by simp
  then have lg3: "heap_get ?s3 (logger s1) = Some (Logger cb)"
    using app by (simp add: same_app_def)
  from log_effect [OF this] obtain s4 where
    s4: "log (logger s1) (pre @ name @ '': '' @ dict_str m) ?s3 = Some s4"
      "heap s4 = heap ?s3" "same_app ?s3 s4"
      "SingletonLogger_instance s4 = SingletonLogger_instance ?s3"
    by blast
  have at4: "robot_at s4 = robot_at s1"
    using robot_at_heap [OF s4(2)] at3 by simp
  have rs4: "robots s4 = robots s @ [r]" and l4: "last_robot s4 = Some r"
    using s4(3) app by (simp_all add: same_app_def)
  have "list_all (\<lambda>x. robot_at s x \<noteq> None) (robots s)"
    using ok by (simp add: app_ok_def)
  then have "list_all (\<lambda>x. robot_at s1 x \<noteq> None) (robots s)"
    using building_old_robot [OF b] by (simp add: list_all_iff)
  then have valid4: "list_all (\<lambda>x. robot_at s4 x \<noteq> None) (robots s4)"
    using building_robot_at [OF b] by (simp add: rs4 at4)
  from update_robot_list_effect [OF this] obtain xs where
    s5: "update_robot_list s4 = Some (s4\<lparr>robot_listbox := xs\<rparr>)"
    by blast
  let ?s5 = "s4\<lparr>robot_listbox := xs\<rparr>"
  have at5: "robot_at ?s5 = robot_at s1"
    using robot_at_heap [of ?s5 s4] at4 by simp
  then have r5: "robot_at ?s5 r = Some (c, name, m)"
    using building_robot_at [OF b] by simp
  from draw_robot_robot [OF r5, of colors] dr obtain its where
    d: "draw_robot colors r ?s5 = Some (?s5\<lparr>canvas := its\<rparr>)"
    by simp
  have r': "robot_at (?s5\<lparr>canvas := its\<rparr>) r = Some (c, name, m)"
    using r5 by simp
  have "instance_ok s1"
    using b by (simp add: building_def)
  then have "instance_ok s4"
    using instance_ok_same [of s4 s1] s4(2,4) by simp
  moreover have "heap_get s4 (logger s4) = Some (Logger cb)"
    using lg3 s4(3) heap_get_heap [OF s4(2)] by (simp add: same_app_def)
  ultimately have "app_ok s4"
    using valid4 by (simp add: app_ok_def)
  then have "app_ok (?s5\<lparr>canvas := its\<rparr>)"
    using app_ok_same [of "?s5\<lparr>canvas := its\<rparr>" s4] by simp
  with r' str s4(1) s5 d rs4 l4 show ?thesis
    by simp
qed

text \<open>
  Claim C2. For either factory and every name, \<open>create_robot\<close> returns a robot of the
  factory's class with that name whose components have exactly the keys \<open>head\<close>,
  \<open>torso\<close> and \<open>limbs\<close>, each bound to a non-empty string. The factory supplies its own
  builder to the director; \<open>construct_robot_building\<close> above is the director's sequence
  for a builder of either class.
\<close>

theorem create_robot_complete:
  assumes "instance_ok s"
  shows "\<exists>r s' components. create_robot f name s = Some (r, s') \<and>
     robot_at s' r =
       Some (case f of HumanoidRobotFactory \<Rightarrow> HumanoidRobot
             | HeavyRobotFactory \<Rightarrow> HeavyRobot, name, components) \<and>
     map fst components = [''head'', ''torso'', ''limbs''] \<and>
     [] \<notin> set (map snd components)"
proof (cases f)
  case HumanoidRobotFactory
  from create_robot_humanoid_building [OF assms, of name] obtain r d s' where
    "create_robot HumanoidRobotFactory name s = Some (r, s')"
    "building s r d HumanoidRobot name
       [(''head'', ''Smart Face''), (''torso'', ''Sleek Body''), (''limbs'', ''Agile Limbs'')]
       s'"
    by blast
  with HumanoidRobotFactory show ?thesis
    by (auto dest: building_robot_at)
next
  case HeavyRobotFactory
  from create_robot_heavy_building [OF assms, of name] obtain r d s' where
    "create_robot HeavyRobotFactory name s = Some (r, s')"
    "building s r d HeavyRobot name
       [(''head'', ''Armored Head''), (''torso'', ''Reinforced Frame''),
        (''limbs'', ''Robust Limbs'')]
       s'"
    by blast
  with HeavyRobotFactory show ?thesis
    by (auto dest: building_robot_at)
qed

theorem create_robot_complete_witness:
  "instance_ok process_start \<and>
   (\<exists>r s' components. create_robot HeavyRobotFactory ''Goliath'' process_start = Some (r, s') \<and>
     robot_at s' r = Some (HeavyRobot, ''Goliath'', components) \<and>
     map fst components = [''head'', ''torso'', ''limbs''] \<and>
     [] \<notin> set (map snd components))"
proof -
  have a: "instance_ok process_start"
    by (simp add: instance_ok_def process_start_def)
  from a create_robot_complete [OF a, of HeavyRobotFactory "''Goliath''"] show ?thesis
    by simp
qed

text \<open>
  Claim C5. \<open>HumanoidRobotFactory.create_robot("Ada")\<close> returns a humanoid robot named
  \<open>Ada\<close> whose components are exactly \<open>head: Smart Face\<close>, \<open>torso: Sleek Body\<close>,
  \<open>limbs: Agile Limbs\<close>.
\<close>

theorem create_robot_Ada:
  assumes "instance_ok s"
  shows "\<exists>r s'. create_robot HumanoidRobotFactory ''Ada'' s = Some (r, s') \<and>
     robot_at s' r =
       Some (HumanoidRobot, ''Ada'',
         [(''head'', ''Smart Face''), (''torso'', ''Sleek Body''), (''limbs'', ''Agile Limbs'')])"
proof -
  from create_robot_humanoid_building [OF assms, of "''Ada''"] obtain r d s' where
    "create_robot HumanoidRobotFactory ''Ada'' s = Some (r, s')"
    "building s r d HumanoidRobot ''Ada''
       [(''head'', ''Smart Face''), (''torso'', ''Sleek Body''), (''limbs'', ''Agile Limbs'')]
       s'"
    by blast
  then show ?thesis
    by (auto dest: building_robot_at)
qed

theorem create_robot_Ada_witness:
  "instance_ok process_start \<and>
   (\<exists>r s'. create_robot HumanoidRobotFactory ''Ada'' process_start = Some (r, s') \<and>
     robot_at s' r =
       Some (HumanoidRobot, ''Ada'',
         [(''head'', ''Smart Face''), (''torso'', ''Sleek Body''), (''limbs'', ''Agile Limbs'')]))"
proof -
  have a: "instance_ok process_start"
    by (simp add: instance_ok_def process_start_def)
  from a create_robot_Ada [OF a] show ?thesis
    by simp
qed

lemma create_humanoid_robot_effect:
  assumes "app_ok s"
  shows "\<exists>s' r components. create_humanoid_robot colors s = Some s' \<and>
     last_robot s' = Some r \<and> robots s' = robots s @ [r] \<and>
     robot_at s' r =
       Some (HumanoidRobot,
         (if strip (name_entry s) = []
          then ''Humanoid-'' @ str_nat (length (robots s) + 1)
          else strip (name_entry s)), components) \<and>
     app_ok s'"
proof -
  from assms have ok: "instance_ok s"
    by (simp add: app_ok_def)
  define hname where "hname =
    (if strip (name_entry s) \<noteq> [] then strip (name_entry s)
     else ''Humanoid-'' @ str_nat (length (robots s) + 1))"
  define m where "m =
    [(''head'', ''Smart Face''), (''torso'', ''Sleek Body''), (''limbs'', ''Agile Limbs'')]"
  from create_robot_humanoid_building [OF ok, of hname] obtain r d s1 where
    c: "create_robot HumanoidRobotFactory hname s = Some (r, s1)"
      "building s r d HumanoidRobot hname m s1"
    unfolding m_def by blast
  have dr: "drawable colors HumanoidRobot m"
    by (simp add: drawable_def m_def get_def is_color_def program_colors_def)
  from register_steps [OF assms c(2) dr, of "''Created humanoid robot: ''"]
  obtain str s4 s5 s' where
    "robot_str (s1\<lparr>last_robot := Some r, robots := robots s1 @ [r]\<rparr>) r = Some str"
    "log (logger s1) (''Created humanoid robot: '' @ str)
       (s1\<lparr>last_robot := Some r, robots := robots s1 @ [r]\<rparr>) = Some s4"
    "update_robot_list s4 = Some s5" "draw_robot colors r s5 = Some s'"
    and post: "last_robot s' = Some r" "robots s' = robots s @ [r]"
      "robot_at s' r = Some (HumanoidRobot, hname, m)" "app_ok s'"
    by blast
  with c(1) have "create_humanoid_robot colors s = Some s'"
    by (simp add: create_humanoid_robot_def hname_def Let_def del: create_robot.simps)
  moreover have "hname = (if strip (name_entry s) = []
      then ''Humanoid-'' @ str_nat (length (robots s) + 1) else strip (name_entry s))"
    by (simp add: hname_def)
  ultimately show ?thesis
    using post by auto
qed

lemma create_heavy_robot_effect:
  assumes "app_ok s"
  shows "\<exists>s' r components. create_heavy_robot colors s = Some s' \<and>
     last_robot s' = Some r \<and> robots s' = robots s @ [r] \<and>
     robot_at s' r =
       Some (HeavyRobot,
         (if strip (name_entry s) = []
          then ''Heavy-'' @ str_nat (length (robots s) + 1)
          else strip (name_entry s)), components) \<and>
     app_ok s'"
proof -
  from assms have ok: "instance_ok s"
    by (simp add: app_ok_def)
  define vname where "vname =
    (if strip (name_entry s) \<noteq> [] then strip (name_entry s)
     else ''Heavy-'' @ str_nat (length (robots s) + 1))"
  from create_robot_heavy_building [OF ok, of vname] obtain r d s1 m where
    c: "create_robot HeavyRobotFactory vname s = Some (r, s1)"
      "building s r d HeavyRobot vname m s1"
    by blast
  have dr: "drawable colors HeavyRobot m"
    by (simp add: drawable_def)
  from register_steps [OF assms c(2) dr, of "''Created heavy robot: ''"]
  obtain str s4 s5 s' where
    "robot_str (s1\<lparr>last_robot := Some r, robots := robots s1 @ [r]\<rparr>) r = Some str"
    "log (logger s1) (''Created heavy robot: '' @ str)
       (s1\<lparr>last_robot := Some r, robots := robots s1 @ [r]\<rparr>) = Some s4"
    "update_robot_list s4 = Some s5" "draw_robot colors r s5 = Some s'"
    and post: "last_robot s' = Some r" "robots s' = robots s @ [r]"
      "robot_at s' r = Some (HeavyRobot, vname, m)" "app_ok s'"
    by blast
  with c(1) have "create_heavy_robot colors s = Some s'"
    by (simp add: create_heavy_robot_def vname_def Let_def del: create_robot.simps)
  moreover have "vname = (if strip (name_entry s) = []
      then ''Heavy-'' @ str_nat (length (robots s) + 1) else strip (name_entry s))"
    by (simp add: vname_def)
  ultimately show ?thesis
    using post by auto
qed

text \<open>
  Claim C8. \<open>create_humanoid_robot\<close> and \<open>create_heavy_robot\<close> return, append the new
  robot to the list and make it the last robot; its name is the stripped text of the name
  entry, or, when that is empty, \<open>Humanoid-\<close> or \<open>Heavy-\<close> followed by the number of
  robots in the list before the call plus one.
\<close>

theorem create_robot_name:
  assumes "app_ok s"
  shows "(\<exists>s' r components. create_humanoid_robot colors s = Some s' \<and>
       last_robot s' = Some r \<and> robots s' = robots s @ [r] \<and>
       robot_at s' r =
         Some (HumanoidRobot,
           (if strip (name_entry s) = []
            then ''Humanoid-'' @ str_nat (length (robots s) + 1)
            else strip (name_entry s)), components)) \<and>
     (\<exists>s' r components. create_heavy_robot colors s = Some s' \<and>
       last_robot s' = Some r \<and> robots s' = robots s @ [r] \<and>
       robot_at s' r =
         Some (HeavyRobot,
           (if strip (name_entry s) = []
            then ''Heavy-'' @ str_nat (length (robots s) + 1)
            else strip (name_entry s)), components))"
proof -
  from create_humanoid_robot_effect [OF assms, of colors]
    create_heavy_robot_effect [OF assms, of colors]
  show ?thesis
    by blast
qed

theorem create_robot_name_witness:
  "app_ok (process_start\<lparr>heap := [Logger (Some App_update_log), Dict [],
       Robot HeavyRobot ''X'' 1], SingletonLogger_instance := Some 0,
       name_entry := ''  '', robots := [2], last_robot := Some 2\<rparr>) \<and>
   (\<exists>s' r components.
      create_humanoid_robot (\<lambda>c. False) (process_start\<lparr>heap := [Logger (Some App_update_log), Dict [],
        Robot HeavyRobot ''X'' 1], SingletonLogger_instance := Some 0,
        name_entry := ''  '', robots := [2], last_robot := Some 2\<rparr>) = Some s' \<and>
      last_robot s' = Some r \<and> robots s' = [2, r] \<and>
      robot_at s' r = Some (HumanoidRobot, ''Humanoid-2'', components)) \<and>
   (\<exists>s' r components.
      create_heavy_robot (\<lambda>c. False) (process_start\<lparr>heap := [Logger (Some App_update_log), Dict [],
        Robot HeavyRobot ''X'' 1], SingletonLogger_instance := Some 0,
        name_entry := ''  '', robots := [2], last_robot := Some 2\<rparr>) = Some s' \<and>
      last_robot s' = Some r \<and> robots s' = [2, r] \<and>
      robot_at s' r = Some (HeavyRobot, ''Heavy-2'', components))"
proof -
  let ?W = "process_start\<lparr>heap := [Logger (Some App_update_log), Dict [],
       Robot HeavyRobot ''X'' 1], SingletonLogger_instance := Some 0,
       name_entry := ''  '', robots := [2], last_robot := Some 2\<rparr>"
  have a: "app_ok ?W"
    by (simp add: app_ok_def instance_ok_def heap_get_def robot_at_def process_start_def)
  have n: "strip ''  '' = []"
    by code_simp
  have "str_nat 2 = ''2''"
    by code_simp
  then have c: "str_nat (Suc (Suc 0)) = ''2''"
    by (simp add: numeral_2_eq_2)
  from a create_robot_name [OF a, of "\<lambda>c. False"] show ?thesis
    by (simp add: n c)
qed

section \<open>Independence of a clone\<close>

lemma setitems_independent:
  assumes "list_all (\<lambda>w. fst w = e \<or> fst w = e2) ws"
    and "heap_get s e = Some (Robot c n d)" and "heap_get s d = Some (Dict m)"
    and "heap_get s e2 = Some (Robot c2 n2 d2)" and "heap_get s d2 = Some (Dict m2)"
    and "d \<noteq> d2"
  shows "\<exists>t. setitems ws s = Some t \<and>
     heap_get t e = Some (Robot c n d) \<and> heap_get t d = Some (Dict (writes e ws m)) \<and>
     heap_get t e2 = Some (Robot c2 n2 d2) \<and> heap_get t d2 = Some (Dict (writes e2 ws m2))"
  using assms
proof (induction ws arbitrary: s m m2)
  case Nil
  then show ?case by simp
next
  case (Cons w ws)
  obtain r key v where w: "w = (r, key, v)"
    by (cases w)
  from Cons.prems(2,4,6) have ne: "e \<noteq> e2"
    by auto
  have dl: "d < length (heap s)" and d2l: "d2 < length (heap s)"
    using heap_get_Some_less Cons.prems(3,5) by blast+
  have ed: "e \<noteq> d" "e \<noteq> d2" "e2 \<noteq> d" "e2 \<noteq> d2"
    using Cons.prems(2-5) by auto
  from Cons.prems(1) w consider "r = e" | "r = e2"
    by auto
  then show ?case
  proof cases
    case 1
    let ?s1 = "s\<lparr>heap := (heap s)[d := Dict (AList.update key v m)]\<rparr>"
    have set: "components_setitem r key v s = Some ?s1"
      using 1 Cons.prems(2,3) by (simp add: components_setitem_def)
    have "\<exists>t. setitems ws ?s1 = Some t \<and>
       heap_get t e = Some (Robot c n d) \<and>
       heap_get t d = Some (Dict (writes e ws (AList.update key v m))) \<and>
       heap_get t e2 = Some (Robot c2 n2 d2) \<and> heap_get t d2 = Some (Dict (writes e2 ws m2))"
      using Cons.prems ed
      by (intro Cons.IH) (simp_all add: heap_get_update [OF dl])
    with set w 1 ne show ?thesis
      by simp
  next
    case 2
    let ?s1 = "s\<lparr>heap := (heap s)[d2 := Dict (AList.update key v m2)]\<rparr>"
    have set: "components_setitem r key v s = Some ?s1"
      using 2 Cons.prems(4,5) by (simp add: components_setitem_def)
    have "\<exists>t. setitems ws ?s1 = Some t \<and>
       heap_get t e = Some (Robot c n d) \<and>
       heap_get t d = Some (Dict (writes e ws m)) \<and>
       heap_get t e2 = Some (Robot c2 n2 d2) \<and>
       heap_get t d2 = Some (Dict (writes e2 ws (AList.update key v m2)))"
      using Cons.prems ed
      by (intro Cons.IH) (simp_all add: heap_get_update [OF d2l])
    with set w 2 ne show ?thesis
      by simp
  qed
qed

lemma robot_at_append:
  assumes "heap t = heap s @ ys" and "robot_at s x = Some y"
  shows "robot_at t x = Some y"
proof -
  obtain c n m where y: "y = (c, n, m)"
    by (cases y)
  from robot_at_heap_get [OF assms(2) [unfolded y]] obtain d where
    d: "heap_get s x = Some (Robot c n d)" "heap_get s d = Some (Dict m)"
    by blast
  have "heap_get t x = Some (Robot c n d)"
    using heap_get_append [OF assms(1) heap_get_Some_less [OF d(1)]] d(1) by simp
  moreover have "heap_get t d = Some (Dict m)"
    using heap_get_append [OF assms(1) heap_get_Some_less [OF d(2)]] d(2) by simp
  ultimately show ?thesis
    unfolding y by (rule heap_get_robot_at)
qed

lemma clone_effect:
  assumes "heap_get s e = Some (Robot c name d)" and "heap_get s d = Some (Dict m)"
  shows "clone e s =
    Some (Suc (length (heap s)),
      s\<lparr>heap := heap s @ [Dict m, Robot c name (length (heap s))]\<rparr>)"
  using assms by (simp add: clone_def alloc_def)

lemma instance_ok_append:
  assumes "heap t = heap s @ ys"
    and "SingletonLogger_instance t = SingletonLogger_instance s" and "instance_ok s"
  shows "instance_ok t"
proof (cases "SingletonLogger_instance s")
  case None
  with assms(2) show ?thesis
    by (simp add: instance_ok_def)
next
  case (Some a)
  with assms(3) obtain cb where cb: "heap_get s a = Some (Logger cb)"
    by (auto simp: instance_ok_def split: option.splits pyobj.splits)
  with heap_get_append [OF assms(1) heap_get_Some_less [OF cb]]
  have "heap_get t a = Some (Logger cb)"
    by simp
  with Some assms(2) show ?thesis
    by (simp add: instance_ok_def)
qed

lemma clone_robot_effect:
  assumes ok: "app_ok s" and last: "last_robot s = Some e"
    and e: "heap_get s e = Some (Robot c name d)" and d: "heap_get s d = Some (Dict m)"
  shows "if drawable colors c m
     then \<exists>s'. clone_robot colors s = Some s' \<and>
       heap s' = heap s @ [Dict m, Robot c (name @ ''_clone'') (length (heap s))] \<and>
       last_robot s' = Some (Suc (length (heap s))) \<and>
       robots s' = robots s @ [Suc (length (heap s))] \<and> app_ok s'
     else clone_robot colors s = None"
proof -
  let ?n = "length (heap s)"
  let ?H = "heap s @ [Dict m, Robot c (name @ ''_clone'') ?n]"
  let ?s1 = "s\<lparr>heap := heap s @ [Dict m, Robot c name ?n]\<rparr>"
  have new: "robot_at t (Suc ?n) = Some (c, name @ ''_clone'', m)" if "heap t = ?H" for t
    using that by (simp add: robot_at_def heap_get_def nth_append)
  have old: "robot_at t x = Some y" if "heap t = ?H" "robot_at s x = Some y" for t x y
    using robot_at_append [OF that] .
  have c1: "clone e s = Some (Suc ?n, ?s1)"
    using clone_effect [OF e d] .
  have r1: "robot_at ?s1 (Suc ?n) = Some (c, name, m)"
    by (simp add: robot_at_def heap_get_def nth_append)
  let ?s2 = "s\<lparr>heap := ?H\<rparr>"
  have n2: "name_set (Suc ?n) (name @ ''_clone'') ?s1 = Some ?s2"
    by (simp add: name_set_def heap_get_def nth_append list_update_append)
  let ?s4 = "?s2\<lparr>robots := robots s @ [Suc ?n], last_robot := Some (Suc ?n)\<rparr>"
  have h4: "heap ?s4 = ?H"
    by simp
  have str: "robot_str ?s4 (Suc ?n) = Some ((name @ ''_clone'') @ '': '' @ dict_str m)"
    using new [OF h4] by (simp add: robot_str_def)
  from ok obtain cb where cb: "heap_get s (logger s) = Some (Logger cb)"
    by (auto simp: app_ok_def split: option.splits pyobj.splits)
  have lg4: "heap_get ?s4 (logger ?s4) = Some (Logger cb)"
    using heap_get_append [OF h4 heap_get_Some_less [OF cb]] cb by simp
  from log_effect [OF this] obtain s5 where
    s5: "log (logger ?s4) (''Cloned robot: '' @ (name @ ''_clone'') @ '': '' @ dict_str m) ?s4 =
        Some s5"
      "heap s5 = heap ?s4" "same_app ?s4 s5"
      "SingletonLogger_instance s5 = SingletonLogger_instance ?s4"
    by blast
  have h5: "heap s5 = ?H"
    using s5(2) by simp
  have rs5: "robots s5 = robots s @ [Suc ?n]" and l5: "last_robot s5 = Some (Suc ?n)"
    using s5(3) by (simp_all add: same_app_def)
  have "list_all (\<lambda>x. robot_at s x \<noteq> None) (robots s)"
    using ok by (simp add: app_ok_def)
  then have "list_all (\<lambda>x. robot_at s5 x \<noteq> None) (robots s)"
    using old [OF h5] by (auto simp: list_all_iff)
  then have valid5: "list_all (\<lambda>x. robot_at s5 x \<noteq> None) (robots s5)"
    using new [OF h5] by (simp add: rs5)
  from update_robot_list_effect [OF this] obtain xs where
    s6: "update_robot_list s5 = Some (s5\<lparr>robot_listbox := xs\<rparr>)"
    by blast
  let ?s6 = "s5\<lparr>robot_listbox := xs\<rparr>"
  have h6: "heap ?s6 = ?H"
    using h5 by simp
  have draw: "draw_robot colors (Suc ?n) ?s6 =
      (if drawable colors c m
       then Some (?s6\<lparr>canvas := (case c of
           HumanoidRobot \<Rightarrow> humanoid_calls m (name @ ''_clone'')
         | HeavyRobot \<Rightarrow> heavy_calls m (name @ ''_clone'')
         | OtherRobot \<Rightarrow> unknown_calls)\<rparr>)
       else None)"
    using draw_robot_robot [OF new [OF h6]] .
  show ?thesis
  proof (cases "drawable colors c m")
    case False
    with draw have "draw_robot colors (Suc ?n) ?s6 = None"
      by simp
    with last c1 r1 n2 str s5(1) s6 have "clone_robot colors s = None"
      by (simp add: clone_robot_def)
    with False show ?thesis
      by simp
  next
    case True
    with draw obtain its where
      s7: "draw_robot colors (Suc ?n) ?s6 = Some (?s6\<lparr>canvas := its\<rparr>)"
      by simp
    let ?s7 = "?s6\<lparr>canvas := its\<rparr>"
    have h7: "heap ?s7 = ?H"
      using h5 by simp
    from new [OF h7] obtain w where
      s8: "open_edit_dialog (Suc ?n) ?s7 =
        Some (?s7\<lparr>edit_windows := edit_windows ?s7 @ [w]\<rparr>)"
      by (simp add: open_edit_dialog_def)
    let ?s8 = "?s7\<lparr>edit_windows := edit_windows ?s7 @ [w]\<rparr>"
    have "clone_robot colors s = Some ?s8"
      using last c1 r1 n2 str s5(1) s6 s7 s8
      by (simp add: clone_robot_def)
    moreover have "heap ?s8 = ?H" "last_robot ?s8 = Some (Suc ?n)"
      "robots ?s8 = robots s @ [Suc ?n]"
      using h5 l5 rs5 by simp_all
    moreover have "app_ok ?s8"
    proof -
      have "instance_ok s"
        using ok by (simp add: app_ok_def)
      then have "instance_ok s5"
        using instance_ok_append [of s5 s] h5 s5(4) by simp
      moreover have "heap_get s5 (logger s5) = Some (Logger cb)"
        using lg4 s5(3) heap_get_heap [OF s5(2)] by (simp add: same_app_def)
      ultimately have "app_ok s5"
        using valid5 by (simp add: app_ok_def)
      then show ?thesis
        using app_ok_same [of ?s8 s5] by simp
    qed
    ultimately show ?thesis
      using True by auto
  qed
qed

text \<open>
  Claim C3. Cloning a robot \<open>e\<close> (\<open>clone\<close>, then the assignment of the name, as
  \<open>clone_robot\<close> does first) returns a new robot \<open>e2\<close>, other than \<open>e\<close>, of the same
  class, named as \<open>e\<close> with \<open>_clone\<close> appended, with the same components. The two
  dictionaries are independent: in every state with that store, after any run of
  assignments to the components of \<open>e\<close> and of \<open>e2\<close>, in any order, the components of
  each robot are what the assignments to that robot alone make of the original
  components, and class and name are unchanged. In particular assignments to \<open>e2\<close>
  alone leave \<open>e\<close> as it was, and the other way round. In the application, with \<open>e\<close>
  the last robot, \<open>clone_robot\<close> returns when the clone is drawable, with that store and
  the clone registered as the last robot, and raises in \<open>draw_robot\<close> when it is not.
\<close>

theorem clone_robot_independent:
  assumes "robot_at s e = Some (c, name, m)"
  shows "\<exists>e2 s1 s2. clone e s = Some (e2, s1) \<and>
     name_set e2 (name @ ''_clone'') s1 = Some s2 \<and> e2 \<noteq> e \<and>
     robot_at s2 e2 = Some (c, name @ ''_clone'', m) \<and>
     robot_at s2 e = Some (c, name, m) \<and>
     (\<forall>t ws. heap t = heap s2 \<and> list_all (\<lambda>w. fst w = e \<or> fst w = e2) ws \<longrightarrow>
        (\<exists>t'. setitems ws t = Some t' \<and>
           robot_at t' e = Some (c, name, writes e ws m) \<and>
           robot_at t' e2 = Some (c, name @ ''_clone'', writes e2 ws m))) \<and>
     (app_ok s \<and> last_robot s = Some e \<longrightarrow>
        (if drawable colors c m
         then \<exists>s'. clone_robot colors s = Some s' \<and> heap s' = heap s2 \<and>
           last_robot s' = Some e2 \<and> robots s' = robots s @ [e2]
         else clone_robot colors s = None))"
proof -
  from robot_at_heap_get [OF assms] obtain d where
    e: "heap_get s e = Some (Robot c name d)" and d: "heap_get s d = Some (Dict m)"
    by blast
  let ?n = "length (heap s)"
  let ?H = "heap s @ [Dict m, Robot c (name @ ''_clone'') ?n]"
  let ?s1 = "s\<lparr>heap := heap s @ [Dict m, Robot c name ?n]\<rparr>"
  let ?s2 = "s\<lparr>heap := ?H\<rparr>"
  have c1: "clone e s = Some (Suc ?n, ?s1)"
    using clone_effect [OF e d] .
  have n2: "name_set (Suc ?n) (name @ ''_clone'') ?s1 = Some ?s2"
    by (simp add: name_set_def heap_get_def nth_append list_update_append)
  have el: "e < ?n" and dl: "d < ?n"
    using heap_get_Some_less e d by blast+
  have get: "heap_get t e = Some (Robot c name d)" "heap_get t d = Some (Dict m)"
    "heap_get t (Suc ?n) = Some (Robot c (name @ ''_clone'') ?n)"
    "heap_get t ?n = Some (Dict m)" if "heap t = ?H" for t
    using that el dl e d by (simp_all add: heap_get_def nth_append)
  have ind: "\<exists>t'. setitems ws t = Some t' \<and>
           robot_at t' e = Some (c, name, writes e ws m) \<and>
           robot_at t' (Suc ?n) = Some (c, name @ ''_clone'', writes (Suc ?n) ws m)"
    if t: "heap t = heap ?s2" and ws: "list_all (\<lambda>w. fst w = e \<or> fst w = Suc ?n) ws" for t ws
  proof -
    from t have h: "heap t = ?H" by simp
    from dl have "d \<noteq> ?n" by simp
    from setitems_independent [OF ws get(1) [OF h] get(2) [OF h] get(3) [OF h] get(4) [OF h] this]
    show ?thesis
      by (auto simp: heap_get_robot_at)
  qed
  have app: "if drawable colors c m
         then \<exists>s'. clone_robot colors s = Some s' \<and> heap s' = heap ?s2 \<and>
           last_robot s' = Some (Suc ?n) \<and> robots s' = robots s @ [Suc ?n]
         else clone_robot colors s = None"
    if "app_ok s" "last_robot s = Some e"
    using clone_robot_effect [OF that e d, of colors] by auto
  have "Suc ?n \<noteq> e"
    using el by simp
  moreover have "robot_at ?s2 (Suc ?n) = Some (c, name @ ''_clone'', m)"
    using get(3,4) [of ?s2] by (simp add: heap_get_robot_at)
  moreover have "robot_at ?s2 e = Some (c, name, m)"
    using get(1,2) [of ?s2] by (simp add: heap_get_robot_at)
  ultimately show ?thesis
    using c1 n2 ind app by blast
qed

theorem clone_robot_independent_witness:
  "robot_at (process_start\<lparr>heap := [Logger (Some App_update_log),
       Dict [(''head'', ''Smart Face''), (''torso'', ''Sleek Body''), (''limbs'', ''Agile Limbs'')],
       Robot HumanoidRobot ''Ada'' 1], SingletonLogger_instance := Some 0,
       robots := [2], last_robot := Some 2\<rparr>) 2 =
     Some (HumanoidRobot, ''Ada'',
       [(''head'', ''Smart Face''), (''torso'', ''Sleek Body''), (''limbs'', ''Agile Limbs'')]) \<and>
   app_ok (process_start\<lparr>heap := [Logger (Some App_update_log),
       Dict [(''head'', ''Smart Face''), (''torso'', ''Sleek Body''), (''limbs'', ''Agile Limbs'')],
       Robot HumanoidRobot ''Ada'' 1], SingletonLogger_instance := Some 0,
       robots := [2], last_robot := Some 2\<rparr>) \<and>
   (\<exists>s' e2.
      clone_robot (\<lambda>c. False) (process_start\<lparr>heap := [Logger (Some App_update_log),
        Dict [(''head'', ''Smart Face''), (''torso'', ''Sleek Body''), (''limbs'', ''Agile Limbs'')],
        Robot HumanoidRobot ''Ada'' 1], SingletonLogger_instance := Some 0,
        robots := [2], last_robot := Some 2\<rparr>) = Some s' \<and>
      last_robot s' = Some e2 \<and> robots s' = [2, e2] \<and> e2 \<noteq> 2 \<and>
      robot_at s' e2 = Some (HumanoidRobot, ''Ada_clone'',
        [(''head'', ''Smart Face''), (''torso'', ''Sleek Body''), (''limbs'', ''Agile Limbs'')]) \<and>
      (\<exists>t. setitems [(e2, ''antenna'', ''Large''), (e2, ''legs'', ''Wide'')] s' = Some t \<and>
         robot_at t 2 = Some (HumanoidRobot, ''Ada'',
           [(''head'', ''Smart Face''), (''torso'', ''Sleek Body''),
            (''limbs'', ''Agile Limbs'')]) \<and>
         robot_at t e2 = Some (HumanoidRobot, ''Ada_clone'',
           [(''head'', ''Smart Face''), (''torso'', ''Sleek Body''),
            (''limbs'', ''Agile Limbs''), (''antenna'', ''Large''), (''legs'', ''Wide'')])))"
proof -
  let ?W = "process_start\<lparr>heap := [Logger (Some App_update_log),
       Dict [(''head'', ''Smart Face''), (''torso'', ''Sleek Body''), (''limbs'', ''Agile Limbs'')],
       Robot HumanoidRobot ''Ada'' 1], SingletonLogger_instance := Some 0,
       robots := [2], last_robot := Some 2\<rparr>"
  let ?m = "[(''head'', ''Smart Face''), (''torso'', ''Sleek Body''), (''limbs'', ''Agile Limbs'')]"
  have a: "app_ok ?W"
    by (simp add: app_ok_def instance_ok_def heap_get_def robot_at_def process_start_def)
  have b: "last_robot ?W = Some 2"
    by simp
  have c: "robot_at ?W 2 = Some (HumanoidRobot, ''Ada'', ?m)"
    by (simp add: robot_at_def heap_get_def)
  have dr: "drawable (\<lambda>c. False) HumanoidRobot ?m"
    by (simp add: drawable_def get_def is_color_def program_colors_def)
  from clone_robot_independent [OF c, of "\<lambda>c. False"] obtain e2 s1 s2 where
    s2: "e2 \<noteq> 2" "robot_at s2 e2 = Some (HumanoidRobot, ''Ada'' @ ''_clone'', ?m)"
    and ind: "\<forall>t ws. heap t = heap s2 \<and> list_all (\<lambda>w. fst w = 2 \<or> fst w = e2) ws \<longrightarrow>
        (\<exists>t'. setitems ws t = Some t' \<and>
           robot_at t' 2 = Some (HumanoidRobot, ''Ada'', writes 2 ws ?m) \<and>
           robot_at t' e2 = Some (HumanoidRobot, ''Ada'' @ ''_clone'', writes e2 ws ?m))"
    and app: "app_ok ?W \<and> last_robot ?W = Some 2 \<longrightarrow>
        (if drawable (\<lambda>c. False) HumanoidRobot ?m
         then \<exists>s'. clone_robot (\<lambda>c. False) ?W = Some s' \<and> heap s' = heap s2 \<and>
           last_robot s' = Some e2 \<and> robots s' = robots ?W @ [e2]
         else clone_robot (\<lambda>c. False) ?W = None)"
    by blast
  from app a b dr obtain s' where
    s': "clone_robot (\<lambda>c. False) ?W = Some s'" "heap s' = heap s2"
      "last_robot s' = Some e2" "robots s' = robots ?W @ [e2]"
    by auto
  have r': "robot_at s' e2 = Some (HumanoidRobot, ''Ada'' @ ''_clone'', ?m)"
    using s2(2) robot_at_heap [OF s'(2)] by simp
  let ?ws = "[(e2, ''antenna'', ''Large''), (e2, ''legs'', ''Wide'')]"
  have "list_all (\<lambda>w. fst w = 2 \<or> fst w = e2) ?ws"
    by simp
  with ind s'(2) obtain t where
    t: "setitems ?ws s' = Some t"
      "robot_at t 2 = Some (HumanoidRobot, ''Ada'', writes 2 ?ws ?m)"
      "robot_at t e2 = Some (HumanoidRobot, ''Ada'' @ ''_clone'', writes e2 ?ws ?m)"
    by blast
  have "writes 2 ?ws ?m = ?m"
    using s2(1) by simp
  moreover have "writes e2 ?ws ?m = ?m @ [(''antenna'', ''Large''), (''legs'', ''Wide'')]"
    by simp
  ultimately have
    "robot_at t 2 = Some (HumanoidRobot, ''Ada'', ?m)"
    "robot_at t e2 = Some (HumanoidRobot, ''Ada_clone'',
       ?m @ [(''antenna'', ''Large''), (''legs'', ''Wide'')])"
    using t(2,3) by simp_all
  with a c s2(1) s' r' t(1) show ?thesis
    by auto
qed

section \<open>The states the application reaches\<close>

text \<open>
  The condition \<open>app_ok\<close>, under which the actions are studied above, holds when the
  application has been created and is kept by each action that returns. Creating a
  robot always returns; cloning returns when the clone is drawable.
\<close>

lemma RobotFactoryApp_init_app_ok:
  assumes "instance_ok s"
  shows "\<exists>s'. RobotFactoryApp_init s = Some s' \<and> app_ok s' \<and>
     robots s' = [] \<and> last_robot s' = None"
proof (cases "SingletonLogger_instance s")
  case None
  then show ?thesis
    by (simp add: RobotFactoryApp_init_def SingletonLogger_new_def alloc_def log_def
        heap_get_def call_callback_def update_log_def app_ok_def instance_ok_def)
next
  case (Some a)
  with assms obtain cb where cb: "heap_get s a = Some (Logger cb)"
    by (auto simp: instance_ok_def split: option.splits pyobj.splits)
  let ?s2 = "s\<lparr>name_entry := [], robot_listbox := [], log_text := [], canvas := [],
    edit_windows := [], logger := a\<rparr>"
  have "heap_get ?s2 a = Some (Logger cb)"
    using cb heap_get_heap [of ?s2 s] by simp
  from log_effect [OF this] obtain s3 where
    s3: "log a ''Application started'' ?s2 = Some s3" "heap s3 = heap ?s2"
      "SingletonLogger_instance s3 = SingletonLogger_instance ?s2" "same_app ?s2 s3"
    by blast
  have init: "RobotFactoryApp_init s = Some (s3\<lparr>robots := [], last_robot := None\<rparr>)"
    using Some s3(1) by (simp add: RobotFactoryApp_init_def SingletonLogger_new_def)
  have "instance_ok s3"
    using instance_ok_same [of s3 s] s3(2,3) assms by simp
  moreover have "heap_get s3 (logger s3) = Some (Logger cb)"
    using cb s3(4) heap_get_heap [of s3 s] s3(2) by (simp add: same_app_def)
  ultimately have "app_ok (s3\<lparr>robots := [], last_robot := None\<rparr>)"
    by (simp add: app_ok_def instance_ok_same [of "s3\<lparr>robots := [], last_robot := None\<rparr>" s3])
  with init show ?thesis
    by simp
qed

lemma create_app_ok:
  assumes "app_ok s"
  shows "(\<exists>s'. create_humanoid_robot colors s = Some s' \<and> app_ok s') \<and>
     (\<exists>s'. create_heavy_robot colors s = Some s' \<and> app_ok s')"
  using create_humanoid_robot_effect [OF assms, of colors]
    create_heavy_robot_effect [OF assms, of colors]
  by blast

lemma clone_robot_app_ok:
  assumes "app_ok s" and "last_robot s = None \<or> (\<exists>e \<in> set (robots s). last_robot s = Some e)"
  shows "case clone_robot colors s of
       None \<Rightarrow> \<exists>e c name m. last_robot s = Some e \<and> robot_at s e = Some (c, name, m) \<and>
         \<not> drawable colors c m
     | Some s' \<Rightarrow> app_ok s' \<and>
         (last_robot s' = None \<or> (\<exists>e \<in> set (robots s'). last_robot s' = Some e))"
proof (cases "last_robot s")
  case None
  from assms(1) obtain cb where cb: "heap_get s (logger s) = Some (Logger cb)"
    by (auto simp: app_ok_def split: option.splits pyobj.splits)
  from log_effect [OF cb] obtain s' where
    s': "log (logger s) ''No robot to clone.'' s = Some s'" "heap s' = heap s"
      "SingletonLogger_instance s' = SingletonLogger_instance s" "same_app s s'"
    by blast
  have "app_ok s'"
    using app_ok_same [of s' s] s'(2-4) assms(1) by (simp add: same_app_def)
  moreover have "last_robot s' = None"
    using s'(4) None by (simp add: same_app_def)
  ultimately show ?thesis
    using None s'(1) by (simp add: clone_robot_def)
next
  case (Some e)
  with assms(2) have "e \<in> set (robots s)"
    by auto
  with assms(1) obtain c name m where r: "robot_at s e = Some (c, name, m)"
    by (auto simp: app_ok_def list_all_iff)
  from robot_at_heap_get [OF this] obtain d where
    d: "heap_get s e = Some (Robot c name d)" "heap_get s d = Some (Dict m)"
    by blast
  show ?thesis
  proof (cases "drawable colors c m")
    case True
    with clone_robot_effect [OF assms(1) Some d, of colors] show ?thesis
      by auto
  next
    case False
    with clone_robot_effect [OF assms(1) Some d, of colors] Some r show ?thesis
      by auto
  qed
qed

end
